theory Spec2Isabelle
  imports Main "HOL-Library.Multiset" "HOL-Library.Sublist" "HOL-Library.AList"
    "HOL-Library.Product_Lexorder"
begin

section \<open>Conversation store of qx (src/src/qx.ts)\<close>

subsection \<open>Stored data\<close>

text \<open>
  A JavaScript string is a sequence of UTF-16 code units; \<open>length\<close>, \<open>slice\<close>,
  \<open>startsWith\<close>, \<open>endsWith\<close> and \<open>replace\<close> all count code units. A \<^typ>\<open>string\<close>
  here is that sequence, one \<^typ>\<open>char\<close> per code unit; a \<^typ>\<open>char\<close> holds the code
  units up to U+00FF.
\<close>

datatype Role = System | Human | Assistant

record StoredMessage =
  role :: Role
  content :: string
  timestamp :: string

text \<open>
  The interfaces \<open>MessageHistory\<close> and \<open>HistoryRecord\<close> both have fields \<open>id\<close>,
  \<open>created\<close> and \<open>updated\<close>; the record fields carry a prefix to keep them apart
  (and away from the identity function \<^const>\<open>id\<close>).
\<close>

record MessageHistory =
  hist_id :: string
  hist_created :: string
  hist_updated :: string
  messages :: "StoredMessage list"

record HistoryRecord =
  rec_id :: string
  rec_created :: string
  rec_updated :: string
  preview :: string
  messageCount :: nat

datatype RestoreResult = Success | Not_found | Ambiguous (matches: "string list")

subsection \<open>JSON text\<close>

text \<open>
  The values \<open>JSON.parse\<close> produces. A number is kept as the text of its literal: the
  program never looks at one.
\<close>

datatype json =
    JNull
  | JBool bool
  | JNumber string
  | JString string
  | JArray "json list"
  | JObject "(string \<times> json) list"

text \<open>
  The object \<open>JSON.stringify\<close> walks for a \<open>MessageHistory\<close>: the properties in the
  order \<open>createNewHistory\<close> and \<open>chat\<close> create them.
\<close>

definition role_name :: "Role \<Rightarrow> string" where
  "role_name r = (case r of System \<Rightarrow> ''system'' | Human \<Rightarrow> ''human'' | Assistant \<Rightarrow> ''assistant'')"

definition message_json :: "StoredMessage \<Rightarrow> json" where
  "message_json m =
     JObject [(''role'', JString (role_name (role m))),
              (''content'', JString (content m)),
              (''timestamp'', JString (timestamp m))]"

definition history_json :: "MessageHistory \<Rightarrow> json" where
  "history_json h =
     JObject [(''id'', JString (hist_id h)),
              (''created'', JString (hist_created h)),
              (''updated'', JString (hist_updated h)),
              (''messages'', JArray (map message_json (messages h)))]"

text \<open>
  \<open>JSON.stringify(value, null, 2)\<close>. A string is quoted with \<open>"\<close> and \<open>\\<close> escaped
  by a backslash, the control characters below U+0020 written as \<open>\b\<close>, \<open>\t\<close>, \<open>\n\<close>,
  \<open>\f\<close>, \<open>\r\<close> or \<open>\u00XX\<close>, and every other code unit as it is. A non-empty array or
  object puts each item on a line of its own, indented two spaces more than the line
  that opens it; an empty one is \<open>[]\<close> or \<open>{}\<close>.
\<close>

definition code_unit :: "char \<Rightarrow> nat" where
  "code_unit c = of_char c"

definition hex_digit :: "nat \<Rightarrow> char" where
  "hex_digit k = ''0123456789abcdef'' ! k"

definition escape_char :: "char \<Rightarrow> string" where
  "escape_char c =
     (if c = CHR 0x22 then [CHR 0x5C, CHR 0x22]
      else if c = CHR 0x5C then [CHR 0x5C, CHR 0x5C]
      else if c = CHR 0x08 then [CHR 0x5C, CHR ''b'']
      else if c = CHR 0x09 then [CHR 0x5C, CHR ''t'']
      else if c = CHR 0x0A then [CHR 0x5C, CHR ''n'']
      else if c = CHR 0x0C then [CHR 0x5C, CHR ''f'']
      else if c = CHR 0x0D then [CHR 0x5C, CHR ''r'']
      else if code_unit c < 32
        then [CHR 0x5C, CHR ''u'', CHR ''0'', CHR ''0'',
              hex_digit (code_unit c div 16), hex_digit (code_unit c mod 16)]
      else [c])"

definition quote :: "string \<Rightarrow> string" where
  "quote s = CHR 0x22 # concat (map escape_char s) @ [CHR 0x22]"

fun stringify :: "string \<Rightarrow> json \<Rightarrow> string"
  and stringify_items :: "string \<Rightarrow> json list \<Rightarrow> string"
  and stringify_members :: "string \<Rightarrow> (string \<times> json) list \<Rightarrow> string"
where
  "stringify ind JNull = ''null''"
| "stringify ind (JBool b) = (if b then ''true'' else ''false'')"
| "stringify ind (JNumber n) = n"
| "stringify ind (JString s) = quote s"
| "stringify ind (JArray []) = ''[]''"
| "stringify ind (JArray (v # vs)) =
     ''['' @ [CHR 0x0A] @ (ind @ ''  '') @ stringify (ind @ ''  '') v
       @ stringify_items (ind @ ''  '') vs @ [CHR 0x0A] @ ind @ '']''"
| "stringify ind (JObject []) = ''{}''"
| "stringify ind (JObject ((k, v) # ms)) =
     ''{'' @ [CHR 0x0A] @ (ind @ ''  '') @ quote k @ '': '' @ stringify (ind @ ''  '') v
       @ stringify_members (ind @ ''  '') ms @ [CHR 0x0A] @ ind @ ''}''"
| "stringify_items ind [] = ''''"
| "stringify_items ind (v # vs) =
     '','' @ [CHR 0x0A] @ ind @ stringify ind v @ stringify_items ind vs"
| "stringify_members ind [] = ''''"
| "stringify_members ind ((k, v) # ms) =
     '','' @ [CHR 0x0A] @ ind @ quote k @ '': '' @ stringify ind v @ stringify_members ind ms"

definition JSON_text :: "MessageHistory \<Rightarrow> string" where
  "JSON_text h = stringify '''' (history_json h)"

text \<open>
  \<open>JSON.parse\<close>, first the tokens of the text. The lexer reads one character at a time.
  White space is space, tab, line feed and carriage return. Inside a string a raw
  control character is an error and a backslash starts an escape. A code unit above
  U+00FF written as \<open>\uXXXX\<close> has no \<^typ>\<open>char\<close> and is refused here.
\<close>

datatype token =
    LBRACE | RBRACE | LBRACKET | RBRACKET | COLON | COMMA
  | STRING string | NUMBER string | WORD string

datatype scan_state =
    Idle
  | InString string
  | Escape string
  | Unicode string "nat list"
  | InNumber string
  | InWord string

definition is_space :: "char \<Rightarrow> bool" where
  "is_space c = (c = CHR 0x20 \<or> c = CHR 0x09 \<or> c = CHR 0x0A \<or> c = CHR 0x0D)"

definition is_digit :: "char \<Rightarrow> bool" where
  "is_digit c = (48 \<le> code_unit c \<and> code_unit c \<le> 57)"

definition is_letter :: "char \<Rightarrow> bool" where
  "is_letter c = (97 \<le> code_unit c \<and> code_unit c \<le> 122)"

definition punctuation :: "char \<Rightarrow> token option" where
  "punctuation c =
     (if c = CHR ''{'' then Some LBRACE else if c = CHR ''}'' then Some RBRACE
      else if c = CHR ''['' then Some LBRACKET else if c = CHR '']'' then Some RBRACKET
      else if c = CHR '':'' then Some COLON else if c = CHR '','' then Some COMMA
      else None)"

definition hex_value :: "char \<Rightarrow> nat option" where
  "hex_value c =
     (if 48 \<le> code_unit c \<and> code_unit c \<le> 57 then Some (code_unit c - 48)
      else if 97 \<le> code_unit c \<and> code_unit c \<le> 102 then Some (code_unit c - 87)
      else if 65 \<le> code_unit c \<and> code_unit c \<le> 70 then Some (code_unit c - 55)
      else None)"

definition unescape :: "char \<Rightarrow> char option" where
  "unescape c =
     (if c = CHR 0x22 \<or> c = CHR 0x5C \<or> c = CHR ''/'' then Some c
      else if c = CHR ''b'' then Some (CHR 0x08)
      else if c = CHR ''t'' then Some (CHR 0x09)
      else if c = CHR ''n'' then Some (CHR 0x0A)
      else if c = CHR ''f'' then Some (CHR 0x0C)
      else if c = CHR ''r'' then Some (CHR 0x0D)
      else None)"

text \<open>The grammar of a number: \<open>-? (0 | [1-9][0-9]*) (. [0-9]+)? ([eE] [+-]? [0-9]+)?\<close>.\<close>

definition digits_then :: "string \<Rightarrow> string option" where
  "digits_then s = (case s of [] \<Rightarrow> None | c # r \<Rightarrow> if is_digit c then Some (dropWhile is_digit r) else None)"

definition valid_number :: "string \<Rightarrow> bool" where
  "valid_number n =
     (let unsigned = (case n of [] \<Rightarrow> [] | c # r \<Rightarrow> if c = CHR ''-'' then r else n);
          after_int = (case unsigned of
                         [] \<Rightarrow> None
                       | c # r \<Rightarrow> if c = CHR ''0'' then Some r else digits_then unsigned);
          after_frac = (case after_int of
                          None \<Rightarrow> None
                        | Some [] \<Rightarrow> Some []
                        | Some (c # r) \<Rightarrow> if c = CHR ''.'' then digits_then r else Some (c # r));
          after_exp = (case after_frac of
                         None \<Rightarrow> None
                       | Some [] \<Rightarrow> Some []
                       | Some (c # r) \<Rightarrow>
                           if c = CHR ''e'' \<or> c = CHR ''E''
                           then (case r of
                                   [] \<Rightarrow> None
                                 | s # t \<Rightarrow> if s = CHR ''+'' \<or> s = CHR ''-'' then digits_then t
                                            else digits_then r)
                           else Some (c # r))
      in after_exp = Some [])"

definition number_char :: "char \<Rightarrow> bool" where
  "number_char c =
     (is_digit c \<or> c = CHR ''-'' \<or> c = CHR ''+'' \<or> c = CHR ''.'' \<or> c = CHR ''e'' \<or> c = CHR ''E'')"

definition valid_word :: "string \<Rightarrow> bool" where
  "valid_word w = (w = ''true'' \<or> w = ''false'' \<or> w = ''null'')"

text \<open>What may follow a number or a word: white space or a punctuation mark.\<close>

definition after_token :: "token list \<Rightarrow> char \<Rightarrow> token list option" where
  "after_token acc c =
     (if is_space c then Some acc
      else case punctuation c of Some t \<Rightarrow> Some (acc @ [t]) | None \<Rightarrow> None)"

fun scan :: "scan_state \<Rightarrow> token list \<Rightarrow> string \<Rightarrow> token list option" where
  "scan Idle acc [] = Some acc"
| "scan (InNumber n) acc [] = (if valid_number n then Some (acc @ [NUMBER n]) else None)"
| "scan (InWord w) acc [] = (if valid_word w then Some (acc @ [WORD w]) else None)"
| "scan st acc [] = None"
| "scan Idle acc (c # cs) =
     (if is_space c then scan Idle acc cs
      else if c = CHR 0x22 then scan (InString []) acc cs
      else if is_digit c \<or> c = CHR ''-'' then scan (InNumber [c]) acc cs
      else if is_letter c then scan (InWord [c]) acc cs
      else case punctuation c of Some t \<Rightarrow> scan Idle (acc @ [t]) cs | None \<Rightarrow> None)"
| "scan (InString s) acc (c # cs) =
     (if c = CHR 0x22 then scan Idle (acc @ [STRING s]) cs
      else if c = CHR 0x5C then scan (Escape s) acc cs
      else if code_unit c < 32 then None
      else scan (InString (s @ [c])) acc cs)"
| "scan (Escape s) acc (c # cs) =
     (if c = CHR ''u'' then scan (Unicode s []) acc cs
      else case unescape c of Some e \<Rightarrow> scan (InString (s @ [e])) acc cs | None \<Rightarrow> None)"
| "scan (Unicode s ds) acc (c # cs) =
     (case hex_value c of
        None \<Rightarrow> None
      | Some v \<Rightarrow>
          if length ds < 3 then scan (Unicode s (ds @ [v])) acc cs
          else (let code = foldl (\<lambda>a d. 16 * a + d) 0 (ds @ [v])
                in if code < 256 then scan (InString (s @ [char_of code])) acc cs else None))"
| "scan (InNumber n) acc (c # cs) =
     (if number_char c then scan (InNumber (n @ [c])) acc cs
      else if valid_number n
        then (case after_token (acc @ [NUMBER n]) c of Some acc' \<Rightarrow> scan Idle acc' cs | None \<Rightarrow> None)
      else None)"
| "scan (InWord w) acc (c # cs) =
     (if is_letter c then scan (InWord (w @ [c])) acc cs
      else if valid_word w
        then (case after_token (acc @ [WORD w]) c of Some acc' \<Rightarrow> scan Idle acc' cs | None \<Rightarrow> None)
      else None)"

text \<open>
  Then the value the tokens spell, read one token at a time with a stack of the arrays
  and objects that are open. A property named twice keeps the place of its first
  occurrence and the value of its last.
\<close>

datatype frame =
    ArrayFrame "json list"
  | ObjectFrame "(string \<times> json) list" "string option"

datatype expect = Value | ValueOrEnd | KeyOrEnd | Key | Colon string | CommaOrEnd | Done json

fun deliver :: "json \<Rightarrow> frame list \<Rightarrow> (expect \<times> frame list) option" where
  "deliver v [] = Some (Done v, [])"
| "deliver v (ArrayFrame vs # st) = Some (CommaOrEnd, ArrayFrame (vs @ [v]) # st)"
| "deliver v (ObjectFrame ms (Some k) # st) =
     Some (CommaOrEnd, ObjectFrame (AList.update k v ms) None # st)"
| "deliver v (ObjectFrame ms None # st) = None"

fun close_array :: "frame list \<Rightarrow> (expect \<times> frame list) option" where
  "close_array (ArrayFrame vs # st) = deliver (JArray vs) st"
| "close_array st = None"

fun close_object :: "frame list \<Rightarrow> (expect \<times> frame list) option" where
  "close_object (ObjectFrame ms None # st) = deliver (JObject ms) st"
| "close_object st = None"

fun start_value :: "frame list \<Rightarrow> token \<Rightarrow> (expect \<times> frame list) option" where
  "start_value st (STRING s) = deliver (JString s) st"
| "start_value st (NUMBER n) = deliver (JNumber n) st"
| "start_value st (WORD w) =
     (if w = ''true'' then deliver (JBool True) st
      else if w = ''false'' then deliver (JBool False) st
      else if w = ''null'' then deliver JNull st
      else None)"
| "start_value st LBRACKET = Some (ValueOrEnd, ArrayFrame [] # st)"
| "start_value st LBRACE = Some (KeyOrEnd, ObjectFrame [] None # st)"
| "start_value st t = None"

fun step :: "expect \<Rightarrow> frame list \<Rightarrow> token \<Rightarrow> (expect \<times> frame list) option" where
  "step Value st t = start_value st t"
| "step ValueOrEnd st t = (if t = RBRACKET then close_array st else start_value st t)"
| "step KeyOrEnd st t =
     (case t of STRING k \<Rightarrow> Some (Colon k, st) | RBRACE \<Rightarrow> close_object st | _ \<Rightarrow> None)"
| "step Key st t = (case t of STRING k \<Rightarrow> Some (Colon k, st) | _ \<Rightarrow> None)"
| "step (Colon k) st t =
     (case (t, st) of
        (COLON, ObjectFrame ms None # st') \<Rightarrow> Some (Value, ObjectFrame ms (Some k) # st')
      | _ \<Rightarrow> None)"
| "step CommaOrEnd st t =
     (case t of
        COMMA \<Rightarrow> (case st of
                    ArrayFrame vs # st' \<Rightarrow> Some (Value, st)
                  | ObjectFrame ms None # st' \<Rightarrow> Some (Key, st)
                  | _ \<Rightarrow> None)
      | RBRACKET \<Rightarrow> close_array st
      | RBRACE \<Rightarrow> close_object st
      | _ \<Rightarrow> None)"
| "step (Done v) st t = None"

fun parse :: "expect \<Rightarrow> frame list \<Rightarrow> token list \<Rightarrow> json option" where
  "parse (Done v) st [] = (if st = [] then Some v else None)"
| "parse e st [] = None"
| "parse e st (t # ts) =
     (case step e st t of None \<Rightarrow> None | Some (e', st') \<Rightarrow> parse e' st' ts)"

definition JSON_parse_text :: "string \<Rightarrow> json option" where
  "JSON_parse_text s = (case scan Idle [] s of None \<Rightarrow> None | Some ts \<Rightarrow> parse Value [] ts)"

text \<open>
  The \<open>MessageHistory\<close> a parsed value is, when it has that shape: an object with string
  properties \<open>id\<close>, \<open>created\<close> and \<open>updated\<close> and an array \<open>messages\<close> of objects with
  a \<open>role\<close> among the three and strings \<open>content\<close> and \<open>timestamp\<close>.
\<close>

definition string_property :: "(string \<times> json) list \<Rightarrow> string \<Rightarrow> string option" where
  "string_property ms k = (case map_of ms k of Some (JString s) \<Rightarrow> Some s | _ \<Rightarrow> None)"

definition role_of_name :: "string \<Rightarrow> Role option" where
  "role_of_name s =
     (if s = ''system'' then Some System else if s = ''human'' then Some Human
      else if s = ''assistant'' then Some Assistant else None)"

definition as_StoredMessage :: "json \<Rightarrow> StoredMessage option" where
  "as_StoredMessage v =
     (case v of
        JObject ms \<Rightarrow>
          (case (Option.bind (string_property ms ''role'') role_of_name,
                 string_property ms ''content'', string_property ms ''timestamp'') of
             (Some r, Some c, Some t) \<Rightarrow> Some \<lparr>role = r, content = c, timestamp = t\<rparr>
           | _ \<Rightarrow> None)
      | _ \<Rightarrow> None)"

definition as_MessageHistory :: "json \<Rightarrow> MessageHistory option" where
  "as_MessageHistory v =
     (case v of
        JObject ms \<Rightarrow>
          (case (string_property ms ''id'', string_property ms ''created'',
                 string_property ms ''updated'', map_of ms ''messages'') of
             (Some i, Some c, Some u, Some (JArray vs)) \<Rightarrow>
               (if list_all (\<lambda>x. as_StoredMessage x \<noteq> None) vs
                then Some \<lparr>hist_id = i, hist_created = c, hist_updated = u,
                           messages = map (\<lambda>x. the (as_StoredMessage x)) vs\<rparr>
                else None)
           | _ \<Rightarrow> None)
      | _ \<Rightarrow> None)"

subsection \<open>Files and the file system\<close>

text \<open>
  The disk holds, for each file the program reads back, what \<open>JSON.parse\<close> makes of
  its text: either the text is one on which \<open>JSON.parse\<close> throws a \<open>SyntaxError\<close>, or
  it parses to a value that is a \<open>MessageHistory\<close>. Text that parses to JSON of some
  other shape is outside this model: the source casts the parse result with
  \<open>as MessageHistory\<close> and never inspects it. \<open>read_text\<close> gives this view of a text;
  it is applied to the text \<open>JSON.stringify\<close> writes for a \<open>MessageHistory\<close>, which
  always parses to a value of that shape.
\<close>

datatype file_text = Malformed string | Serialised MessageHistory

definition read_text :: "string \<Rightarrow> file_text" where
  "read_text s =
     (case JSON_parse_text s of
        None \<Rightarrow> Malformed s
      | Some v \<Rightarrow> (case as_MessageHistory v of Some h \<Rightarrow> Serialised h | None \<Rightarrow> Malformed s))"

datatype exn = SyntaxError | ENOENT | ENOTDIR | EISDIR | ERR_INVALID_ARG_VALUE

text \<open>What a file holds after \<open>writeFileSync(path, JSON.stringify(history, null, 2))\<close>.\<close>

definition JSON_stringify :: "MessageHistory \<Rightarrow> file_text" where
  "JSON_stringify h = read_text (JSON_text h)"

fun JSON_parse :: "file_text \<Rightarrow> exn + MessageHistory" where
  "JSON_parse (Malformed s) = Inl SyntaxError"
| "JSON_parse (Serialised h) = Inr h"

text \<open>
  The paths: \<open>CONFIG_DIR\<close>, \<open>HISTORY_DIR\<close>, \<open>ACTIVE_MESSAGE_PATH\<close>, the entries of
  \<open>HISTORY_DIR\<close>, and any other absolute path, given by its components. The calls of
  the \<open>fs\<close> module that change the disk are recorded in the order they are made;
  \<open>renameSync\<close> is a call of that module which qx.ts neither imports nor makes.
\<close>

datatype path =
    CONFIG_DIR
  | HISTORY_DIR
  | ACTIVE_MESSAGE_PATH
  | HistoryEntry string
  | Elsewhere "string list"

datatype fs_call =
    MkdirSync path
  | WriteFileSync path file_text
  | UnlinkSync path
  | RenameSync path path

text \<open>
  The disk: the components of \<open>homedir()\<close>; whether the two directories exist; the
  active conversation file if there is one; the regular files of the history directory
  in the order \<open>readdirSync\<close> lists them (name and text of each); the other
  directories and the other regular files of the file system, by their absolute paths;
  and the log of calls made so far. Paths are POSIX paths; \<open>homedir()\<close> is absolute
  and normalised, and the directories on the way to it exist. The active conversation
  path and the entries of the history directory are regular files where they exist: a
  directory in their place is outside this model. Permissions and limits on the length
  of a name are not modelled either: a write fails only for the reasons the path itself
  gives.
\<close>

record disk =
  home :: "string list"
  config_dir :: bool
  history_dir :: bool
  active_message :: "file_text option"
  history :: "(string \<times> file_text) list"
  other_dirs :: "string list list"
  other_files :: "(string list \<times> file_text) list"
  calls :: "fs_call list"

text \<open>The outcome of a function that may throw: the value or the exception, with the disk.\<close>

datatype 'a outcome = Returns 'a disk | Throws exn disk

subsection \<open>String and path operations\<close>

definition startsWith :: "string \<Rightarrow> string \<Rightarrow> bool" where
  "startsWith s p = prefix p s"

definition endsWith :: "string \<Rightarrow> string \<Rightarrow> bool" where
  "endsWith s e = suffix e s"

text \<open>\<open>s.replace(pat, rep)\<close> with a string pattern replaces the first occurrence only.\<close>

fun replace_first :: "string \<Rightarrow> string \<Rightarrow> string \<Rightarrow> string" where
  "replace_first pat rep [] = (if pat = [] then rep else [])"
| "replace_first pat rep (c # cs) =
     (if prefix pat (c # cs) then rep @ drop (length pat) (c # cs)
      else c # replace_first pat rep cs)"

text \<open>
  \<open>join(HISTORY_DIR, name)\<close> of the \<open>path\<close> module: the segments of \<open>name\<close> between
  slashes are applied to the components of \<open>HISTORY_DIR\<close> in turn; an empty segment and
  \<open>.\<close> change nothing, \<open>..\<close> drops the last component (at the root there is none to
  drop), any other segment is appended. The result is a path like any other: nothing
  keeps it inside the history directory.
\<close>

fun split_on :: "char \<Rightarrow> string \<Rightarrow> string list" where
  "split_on sep [] = [[]]"
| "split_on sep (c # cs) =
     (if c = sep then [] # split_on sep cs
      else case split_on sep cs of
             s # ss \<Rightarrow> (c # s) # ss
           | [] \<Rightarrow> [[c]])"

fun normalize :: "string list \<Rightarrow> string list \<Rightarrow> string list" where
  "normalize at [] = at"
| "normalize at (s # ss) =
     (if s = [] \<or> s = ''.'' then normalize at ss
      else if s = ''..'' then normalize (butlast at) ss
      else normalize (at @ [s]) ss)"

definition locate :: "disk \<Rightarrow> string list \<Rightarrow> path" where
  "locate d q =
     (if q = home d @ [''.cx''] then CONFIG_DIR
      else if q = home d @ [''.cx'', ''history''] then HISTORY_DIR
      else if q = home d @ [''.cx'', ''active_message.json''] then ACTIVE_MESSAGE_PATH
      else if q \<noteq> [] \<and> butlast q = home d @ [''.cx'', ''history''] then HistoryEntry (last q)
      else Elsewhere q)"

definition join_HISTORY_DIR :: "disk \<Rightarrow> string \<Rightarrow> path" where
  "join_HISTORY_DIR d name =
     locate d (normalize (home d @ [''.cx'', ''history'']) (split_on CHR ''/'' name))"

subsection \<open>The calls of the \<open>fs\<close> module\<close>

definition is_directory :: "disk \<Rightarrow> string list \<Rightarrow> bool" where
  "is_directory d q =
     (prefix q (home d)
      \<or> (q = home d @ [''.cx''] \<and> config_dir d)
      \<or> (q = home d @ [''.cx'', ''history''] \<and> history_dir d)
      \<or> q \<in> set (other_dirs d))"

definition is_file :: "disk \<Rightarrow> string list \<Rightarrow> bool" where
  "is_file d q =
     ((q = home d @ [''.cx'', ''active_message.json''] \<and> active_message d \<noteq> None)
      \<or> (q \<noteq> [] \<and> butlast q = home d @ [''.cx'', ''history'']
           \<and> last q \<in> fst ` set (history d))
      \<or> q \<in> fst ` set (other_files d))"

definition mkdirSync :: "path \<Rightarrow> disk \<Rightarrow> disk" where
  "mkdirSync p d =
     (case p of
        HISTORY_DIR \<Rightarrow> d\<lparr>config_dir := True, history_dir := True, calls := calls d @ [MkdirSync p]\<rparr>
      | _ \<Rightarrow> d\<lparr>config_dir := True, calls := calls d @ [MkdirSync p]\<rparr>)"

text \<open>
  \<open>writeFileSync(path, text)\<close> creates the file or replaces its text. It throws when a
  component of the path holds a NUL character, when the path is a directory, when the
  directory the file would be in does not exist (\<open>ENOENT\<close>) and when a component on
  the way is a regular file (\<open>ENOTDIR\<close>). A new entry of the history directory is
  listed after the ones already there.
\<close>

definition writeFileSync :: "path \<Rightarrow> file_text \<Rightarrow> disk \<Rightarrow> unit outcome" where
  "writeFileSync p text d =
     (case p of
        ACTIVE_MESSAGE_PATH \<Rightarrow>
          if config_dir d
          then Returns () (d\<lparr>active_message := Some text,
                              calls := calls d @ [WriteFileSync p text]\<rparr>)
          else Throws ENOENT d
      | HistoryEntry n \<Rightarrow>
          if CHR 0x00 \<in> set n then Throws ERR_INVALID_ARG_VALUE d
          else if history_dir d
          then Returns () (d\<lparr>history := AList.update n text (history d),
                              calls := calls d @ [WriteFileSync p text]\<rparr>)
          else Throws ENOENT d
      | Elsewhere q \<Rightarrow>
          if list_ex (\<lambda>s. CHR 0x00 \<in> set s) q then Throws ERR_INVALID_ARG_VALUE d
          else if is_directory d q then Throws EISDIR d
          else if is_directory d (butlast q)
          then Returns () (d\<lparr>other_files := AList.update q text (other_files d),
                              calls := calls d @ [WriteFileSync p text]\<rparr>)
          else if list_ex (is_file d) (butlast (prefixes q)) then Throws ENOTDIR d
          else Throws ENOENT d
      | _ \<Rightarrow> Throws EISDIR d)"

subsection \<open>The functions of qx.ts\<close>

definition ensureDirectories :: "disk \<Rightarrow> disk" where
  "ensureDirectories d =
     (let d1 = (if \<not> config_dir d then mkdirSync CONFIG_DIR d else d)
      in if \<not> history_dir d1 then mkdirSync HISTORY_DIR d1 else d1)"

definition loadActiveMessage :: "disk \<Rightarrow> MessageHistory option \<times> disk" where
  "loadActiveMessage d0 =
     (let d = ensureDirectories d0
      in case active_message d of
           None \<Rightarrow> (None, d)
         | Some text \<Rightarrow>
             (case JSON_parse text of
                Inl e \<Rightarrow> (None, d)
              | Inr h \<Rightarrow> (Some h, d)))"

text \<open>
  \<open>now\<close> is the value of \<open>new Date().toISOString()\<close> at the call. \<open>saveActiveMessage\<close>
  assigns it to the \<open>updated\<close> property of the record it is given, which is the
  caller's object: the record as the call leaves it is returned with the disk.
\<close>

definition saveActiveMessage :: "string \<Rightarrow> MessageHistory \<Rightarrow> disk \<Rightarrow> MessageHistory outcome" where
  "saveActiveMessage now h d0 =
     (let d = ensureDirectories d0;
          h' = h\<lparr>hist_updated := now\<rparr>
      in case writeFileSync ACTIVE_MESSAGE_PATH (JSON_stringify h') d of
           Throws e d1 \<Rightarrow> Throws e d1
         | Returns u d1 \<Rightarrow> Returns h' d1)"

definition archiveToHistory :: "MessageHistory \<Rightarrow> disk \<Rightarrow> unit outcome" where
  "archiveToHistory h d0 =
     (let d = ensureDirectories d0;
          historyPath = join_HISTORY_DIR d (hist_id h @ ''.json'')
      in writeFileSync historyPath (JSON_stringify h) d)"

definition clearActiveMessage :: "disk \<Rightarrow> bool outcome" where
  "clearActiveMessage d0 =
     (let (current, d) = loadActiveMessage d0;
          archived = (case current of
                        None \<Rightarrow> Returns () d
                      | Some c \<Rightarrow> if length (messages c) > 0 then archiveToHistory c d
                                  else Returns () d)
      in case archived of
           Throws e d1 \<Rightarrow> Throws e d1
         | Returns u d1 \<Rightarrow>
             if active_message d1 \<noteq> None
             then Returns True (d1\<lparr>active_message := None,
                                    calls := calls d1 @ [UnlinkSync ACTIVE_MESSAGE_PATH]\<rparr>)
             else Returns False d1)"

definition toRecord :: "MessageHistory \<Rightarrow> HistoryRecord" where
  "toRecord h =
     (let firstHuman = find (\<lambda>m. role m = Human) (messages h);
          preview = (case firstHuman of
                       Some m \<Rightarrow> take 60 (content m) @ (if length (content m) > 60 then ''...'' else '''')
                     | None \<Rightarrow> ''(empty conversation)'')
      in \<lparr>rec_id = hist_id h, rec_created = hist_created h, rec_updated = hist_updated h,
          preview = preview, messageCount = length (messages h)\<rparr>)"

text \<open>The \<open>for\<close> loop of \<open>listHistory\<close>: a file whose text does not parse is skipped.\<close>

fun collect :: "(string \<times> file_text) list \<Rightarrow> HistoryRecord list \<Rightarrow> HistoryRecord list" where
  "collect [] records = records"
| "collect ((file, text) # rest) records =
     (case JSON_parse text of
        Inl e \<Rightarrow> collect rest records
      | Inr h \<Rightarrow> collect rest (records @ [toRecord h]))"

text \<open>
  \<open>new Date(s).getTime()\<close> is the parameter \<open>getTime\<close>: the time value of a date
  string in milliseconds, \<open>None\<close> where JavaScript gives \<open>NaN\<close>. The comparator is
  \<open>getTime b - getTime a\<close>, \<open>NaN\<close> when either is. Time values are integers below
  \<open>8.64e15\<close> in magnitude, so the sign of the floating-point difference is the sign of
  the exact one.
\<close>

definition byUpdated :: "(string \<Rightarrow> int option) \<Rightarrow> HistoryRecord \<Rightarrow> HistoryRecord \<Rightarrow> int option" where
  "byUpdated getTime a b =
     (case (getTime (rec_updated b), getTime (rec_updated a)) of
        (Some tb, Some ta) \<Rightarrow> Some (tb - ta)
      | _ \<Rightarrow> None)"

text \<open>
  \<open>Array.prototype.sort\<close> is stable and reads a \<open>NaN\<close> from the comparator as \<open>0\<close>.
  With a consistent comparator the result is the one a stable insertion sort gives;
  with an inconsistent one (possible only when some date is \<open>NaN\<close>) ECMAScript leaves
  the order to the implementation, and the insertion sort is one such implementation.
\<close>

fun sort_insert :: "('a \<Rightarrow> 'a \<Rightarrow> int option) \<Rightarrow> 'a \<Rightarrow> 'a list \<Rightarrow> 'a list" where
  "sort_insert cmp x [] = [x]"
| "sort_insert cmp x (y # ys) =
     (if (case cmp x y of None \<Rightarrow> 0 | Some v \<Rightarrow> v) \<le> 0 then x # y # ys
      else y # sort_insert cmp x ys)"

fun array_sort :: "('a \<Rightarrow> 'a \<Rightarrow> int option) \<Rightarrow> 'a list \<Rightarrow> 'a list" where
  "array_sort cmp [] = []"
| "array_sort cmp (x # xs) = sort_insert cmp x (array_sort cmp xs)"

definition listHistory :: "(string \<Rightarrow> int option) \<Rightarrow> disk \<Rightarrow> HistoryRecord list \<times> disk" where
  "listHistory getTime d0 =
     (let d = ensureDirectories d0
      in if \<not> history_dir d then ([], d)
         else
           let files = filter (\<lambda>(f, text). endsWith f ''.json'') (history d);
               records = collect files []
           in (array_sort (byUpdated getTime) records, d))"

definition restoreHistory :: "string \<Rightarrow> string \<Rightarrow> disk \<Rightarrow> RestoreResult outcome" where
  "restoreHistory now guid d0 =
     (let d = ensureDirectories d0;
          files = filter (\<lambda>(f, text). endsWith f ''.json'' \<and> startsWith f guid) (history d)
      in if length files = 0 then Returns Not_found d
         else if length files > 1
         then Returns (Ambiguous (map (\<lambda>(f, text). replace_first ''.json'' '''' f) files)) d
         else
           (case JSON_parse (snd (hd files)) of
              Inl e \<Rightarrow> Throws e d
            | Inr h \<Rightarrow>
                (let (current, d1) = loadActiveMessage d;
                     archived = (case current of
                                   None \<Rightarrow> Returns () d1
                                 | Some c \<Rightarrow> if length (messages c) > 0 then archiveToHistory c d1
                                             else Returns () d1)
                 in case archived of
                      Throws e d2 \<Rightarrow> Throws e d2
                    | Returns u d2 \<Rightarrow>
                        (case saveActiveMessage now h d2 of
                           Throws e d3 \<Rightarrow> Throws e d3
                         | Returns h' d3 \<Rightarrow> Returns Success d3))))"

subsection \<open>Notions used to state the properties\<close>

text \<open>The value a call returned, and the disk it left, whether it returned or threw.\<close>

fun returned :: "'a outcome \<Rightarrow> 'a option" where
  "returned (Returns v d) = Some v"
| "returned (Throws e d) = None"

fun disk_of :: "'a outcome \<Rightarrow> disk" where
  "disk_of (Returns v d) = d"
| "disk_of (Throws e d) = d"

text \<open>Calls that only create directories, as \<open>ensureDirectories\<close> makes.\<close>

definition only_mkdir :: "fs_call list \<Rightarrow> bool" where
  "only_mkdir cs = list_all (\<lambda>c. case c of MkdirSync p \<Rightarrow> True | _ \<Rightarrow> False) cs"

text \<open>The conversations of the files that parse, in directory order.\<close>

fun parsed :: "(string \<times> file_text) list \<Rightarrow> MessageHistory list" where
  "parsed [] = []"
| "parsed ((f, Malformed s) # rest) = parsed rest"
| "parsed ((f, Serialised h) # rest) = h # parsed rest"

text \<open>Record \<open>a\<close> may stand before record \<open>b\<close> in a list ordered by \<open>updated\<close>, newest first.\<close>

definition newer_first :: "(string \<Rightarrow> int option) \<Rightarrow> HistoryRecord \<Rightarrow> HistoryRecord \<Rightarrow> bool" where
  "newer_first getTime a b =
     (\<exists>ta tb. getTime (rec_updated a) = Some ta \<and> getTime (rec_updated b) = Some tb \<and> tb \<le> ta)"

text \<open>
  Archiving the active conversation throws: there is one that parses and has a
  message, and \<open>archiveToHistory\<close> throws on it.
\<close>

definition archive_throws :: "disk \<Rightarrow> bool" where
  "archive_throws d =
     (case fst (loadActiveMessage d) of
        None \<Rightarrow> False
      | Some c \<Rightarrow>
          length (messages c) > 0
          \<and> (case archiveToHistory c (snd (loadActiveMessage d)) of
                Throws e d' \<Rightarrow> True
              | Returns u d' \<Rightarrow> False))"

text \<open>The tokens of the text \<open>stringify\<close> writes for a value.\<close>

fun tokens :: "json \<Rightarrow> token list"
  and item_tokens :: "json list \<Rightarrow> token list"
  and member_tokens :: "(string \<times> json) list \<Rightarrow> token list"
where
  "tokens JNull = [WORD ''null'']"
| "tokens (JBool b) = [WORD (if b then ''true'' else ''false'')]"
| "tokens (JNumber n) = [NUMBER n]"
| "tokens (JString s) = [STRING s]"
| "tokens (JArray []) = [LBRACKET, RBRACKET]"
| "tokens (JArray (v # vs)) = LBRACKET # tokens v @ item_tokens vs @ [RBRACKET]"
| "tokens (JObject []) = [LBRACE, RBRACE]"
| "tokens (JObject ((k, v) # ms)) =
     LBRACE # STRING k # COLON # tokens v @ member_tokens ms @ [RBRACE]"
| "item_tokens [] = []"
| "item_tokens (v # vs) = COMMA # tokens v @ item_tokens vs"
| "member_tokens [] = []"
| "member_tokens ((k, v) # ms) = COMMA # STRING k # COLON # tokens v @ member_tokens ms"

text \<open>
  The values made of strings, arrays and objects only, no property named twice in one
  object: those \<open>history_json\<close> builds.
\<close>

fun plain :: "json \<Rightarrow> bool"
  and plain_items :: "json list \<Rightarrow> bool"
  and plain_members :: "(string \<times> json) list \<Rightarrow> bool"
where
  "plain JNull = False"
| "plain (JBool b) = False"
| "plain (JNumber n) = False"
| "plain (JString s) = True"
| "plain (JArray vs) = plain_items vs"
| "plain (JObject ms) = (distinct (map fst ms) \<and> plain_members ms)"
| "plain_items [] = True"
| "plain_items (v # vs) = (plain v \<and> plain_items vs)"
| "plain_members [] = True"
| "plain_members ((k, v) # ms) = (plain v \<and> plain_members ms)"

text \<open>What the parser goes on with after a step, and the rest of the tokens.\<close>

definition continue :: "(expect \<times> frame list) option \<Rightarrow> token list \<Rightarrow> json option" where
  "continue x r = (case x of None \<Rightarrow> None | Some (e, st) \<Rightarrow> parse e st r)"

text \<open>
  The write discipline in the words of the specification (section 5): the text is
  written to a temporary path, which then replaces the target by a rename, and the
  target itself is never written directly.
\<close>

definition writes_directly :: "path \<Rightarrow> fs_call list \<Rightarrow> bool" where
  "writes_directly target cs =
     list_ex (\<lambda>c. case c of WriteFileSync p text \<Rightarrow> p = target | _ \<Rightarrow> False) cs"

fun via_temporary :: "path \<Rightarrow> fs_call list \<Rightarrow> bool" where
  "via_temporary target [] = False"
| "via_temporary target (c # cs) =
     ((case c of
         WriteFileSync tmp text \<Rightarrow> tmp \<noteq> target \<and> RenameSync tmp target \<in> set cs
       | _ \<Rightarrow> False)
      \<or> via_temporary target cs)"

definition atomic_replace :: "path \<Rightarrow> fs_call list \<Rightarrow> bool" where
  "atomic_replace target cs = (via_temporary target cs \<and> \<not> writes_directly target cs)"

text \<open>
  The resolver in the words of the specification (section 4.1): the identifiers of the
  stored records are the names of the history files that parse, without the \<open>.json\<close>
  extension \<open>archiveToHistory\<close> appends; a prefix is classified by the identifiers it
  is a literal prefix of.
\<close>

definition stored_identifiers :: "disk \<Rightarrow> string list" where
  "stored_identifiers d =
     map (\<lambda>(f, text). take (length f - length ''.json'') f)
       (filter (\<lambda>(f, text). endsWith f ''.json''
                  \<and> (case text of Serialised h \<Rightarrow> True | Malformed s \<Rightarrow> False))
          (history d))"

definition classify_by_identifier :: "string list \<Rightarrow> string \<Rightarrow> RestoreResult" where
  "classify_by_identifier ids p =
     (let ms = filter (\<lambda>i. prefix p i) ids
      in if ms = [] then Not_found
         else if length ms = 1 then Success
         else Ambiguous ms)"

subsection \<open>Example conversations and disks\<close>

definition first_conversation :: MessageHistory where
  "first_conversation =
     \<lparr>hist_id = ''7c1e02aa'',
      hist_created = ''2025-02-20T08:00:00.000Z'',
      hist_updated = ''2025-02-20T08:05:00.000Z'',
      messages =
        [\<lparr>role = System, content = ''You are a helpful, context-aware assistant.'',
          timestamp = ''2025-02-20T08:00:00.000Z''\<rparr>,
         \<lparr>role = Human,
          content = ''how do I find every typescript file that imports express in this repo'',
          timestamp = ''2025-02-20T08:00:01.000Z''\<rparr>,
         \<lparr>role = Assistant, content = ''Run grep -rl express --include=*.ts .'',
          timestamp = ''2025-02-20T08:05:00.000Z''\<rparr>]\<rparr>"

definition second_conversation :: MessageHistory where
  "second_conversation =
     \<lparr>hist_id = ''3b9d77e1'',
      hist_created = ''2025-02-25T17:29:00.000Z'',
      hist_updated = ''2025-02-25T17:30:00.000Z'',
      messages =
        [\<lparr>role = System, content = ''You are a helpful, context-aware assistant.'',
          timestamp = ''2025-02-25T17:29:00.000Z''\<rparr>]\<rparr>"

definition active_conversation :: MessageHistory where
  "active_conversation =
     \<lparr>hist_id = ''5d0f3a6c'',
      hist_created = ''2025-02-27T09:15:00.000Z'',
      hist_updated = ''2025-02-27T09:20:00.000Z'',
      messages =
        [\<lparr>role = System, content = ''You are a helpful, context-aware assistant.'',
          timestamp = ''2025-02-27T09:15:00.000Z''\<rparr>,
         \<lparr>role = Human, content = ''what is the capital of china'',
          timestamp = ''2025-02-27T09:15:01.000Z''\<rparr>,
         \<lparr>role = Assistant, content = ''Beijing.'',
          timestamp = ''2025-02-27T09:20:00.000Z''\<rparr>]\<rparr>"

text \<open>A disk with no active conversation and two history files that do not parse.\<close>

definition example_disk :: disk where
  "example_disk =
     \<lparr>home = [''home'', ''kira''],
      config_dir = True, history_dir = True, active_message = None,
      history = [(''7c1e02aa.json'', Malformed ''''), (''notes.txt'', Malformed ''x''),
                 (''7c1e9b40.json'', Malformed ''{'')],
      other_dirs = [], other_files = [], calls = []\<rparr>"

text \<open>A disk with an active conversation, two archived ones, a broken file and a stray one.\<close>

definition example_store :: disk where
  "example_store =
     \<lparr>home = [''home'', ''kira''],
      config_dir = True, history_dir = True,
      active_message = Some (Serialised active_conversation),
      history = [(''7c1e02aa.json'', Serialised first_conversation),
                 (''broken.json'', Malformed ''{ id: ''),
                 (''3b9d77e1.json'', Serialised second_conversation),
                 (''notes.txt'', Malformed ''remember to archive'')],
      other_dirs = [], other_files = [], calls = []\<rparr>"

text \<open>A disk on which one identifier is a proper prefix of another.\<close>

definition nested_store :: disk where
  "nested_store =
     \<lparr>home = [''home'', ''kira''],
      config_dir = True, history_dir = True, active_message = None,
      history = [(''7c1e.json'', Serialised (first_conversation\<lparr>hist_id := ''7c1e''\<rparr>)),
                 (''7c1e02aa.json'', Serialised first_conversation)],
      other_dirs = [], other_files = [], calls = []\<rparr>"

text \<open>The time values of the \<open>updated\<close> stamps above, in milliseconds since the epoch.\<close>

definition example_getTime :: "string \<Rightarrow> int option" where
  "example_getTime =
     map_of [(''2025-02-20T08:05:00.000Z'', 1740038700000),
             (''2025-02-25T17:30:00.000Z'', 1740504600000),
             (''2025-02-27T09:20:00.000Z'', 1740648000000)]"

text \<open>
  A disk whose active conversation has an identifier that leads out of the
  history directory, back to the active file.
\<close>

definition traversal_store :: disk where
  "traversal_store =
     example_store\<lparr>active_message :=
       Some (Serialised (active_conversation\<lparr>hist_id := ''../active_message''\<rparr>))\<rparr>"

text \<open>A disk on which the identifiers of two records hold \<open>.json\<close> themselves.\<close>

definition dotted_store :: disk where
  "dotted_store =
     \<lparr>home = [''home'', ''kira''],
      config_dir = True, history_dir = True, active_message = None,
      history = [(''a.json.json'', Serialised (first_conversation\<lparr>hist_id := ''a.json''\<rparr>)),
                 (''a.jsonb.json'', Serialised (second_conversation\<lparr>hist_id := ''a.jsonb''\<rparr>))],
      other_dirs = [], other_files = [], calls = []\<rparr>"

text \<open>
  A disk whose active conversation has an identifier that names a file in a directory
  that does not exist.
\<close>

definition unarchivable_store :: disk where
  "unarchivable_store =
     example_store\<lparr>active_message :=
       Some (Serialised (active_conversation\<lparr>hist_id := ''sub/x''\<rparr>))\<rparr>"

text \<open>A file name that is a single path component: no slash and no NUL character.\<close>

definition single_component :: "string \<Rightarrow> bool" where
  "single_component name = (CHR ''/'' \<notin> set name \<and> CHR 0x00 \<notin> set name)"

text \<open>The last two statements of \<open>restoreHistory\<close>: save the restored conversation, return \<open>success\<close>.\<close>

definition saveRestored :: "string \<Rightarrow> MessageHistory \<Rightarrow> disk \<Rightarrow> RestoreResult outcome" where
  "saveRestored now h d =
     (case saveActiveMessage now h d of
        Throws e d3 \<Rightarrow> Throws e d3
      | Returns h' d3 \<Rightarrow> Returns Success d3)"

section \<open>Task engine of tx, modelled from the specification\<close>

text \<open>
  The repository's README and documentation describe a third tool, \<open>tx\<close>, whose task
  store, focus scorer and recurrence engine the specification covers (sections 3, 4.3,
  4.4 and 4.5). Its source is not among the files under \<open>src/\<close>. The definitions of
  this section follow the words of the specification.
\<close>

subsection \<open>Dates\<close>

text \<open>
  Modelled from the spec: the calendar dates of deadlines (section 3, "optional deadline
  (date ...)"); the tx source that represents dates is missing. A date is a year, a
  month from 1 to 12 and a day of that month, in the Gregorian calendar.
\<close>

record date =
  year :: int
  month :: nat
  day :: nat



definition date_key :: "date \<Rightarrow> int \<times> nat \<times> nat" where
  "date_key d = (year d, month d, day d)"

text \<open>
  Modelled from the spec: "deadline strictly before current date" (section 4.5); the tx
  source that compares dates is missing.
\<close>

definition date_before :: "date \<Rightarrow> date \<Rightarrow> bool" where
  "date_before a b =
     (year a < year b
      \<or> (year a = year b \<and> (month a < month b \<or> (month a = month b \<and> day a < day b))))"


datatype weekday = Monday | Tuesday | Wednesday | Thursday | Friday | Saturday | Sunday



subsection \<open>Tasks\<close>

text \<open>
  Modelled from the spec: the recurrence descriptor (section 3), "frequency class:
  daily/weekly/monthly/yearly, optional anchor: weekday name or day-of-month"; the tx
  source that declares it is missing. The anchor is held as the engine reads it: a
  weekday, a day of the month, or text it cannot parse.
\<close>

datatype frequency = Daily | Weekly | Monthly | Yearly

datatype anchor = OnWeekday weekday | OnDayOfMonth nat | Unparseable string

record recurrence =
  frequency :: frequency
  anchor :: "anchor option"

text \<open>
  Modelled from the spec: the task record (section 3): identity, raw description,
  creation timestamp, status, discovered fields, optional deadline, optional recurrence
  descriptor, optional completion record and the identifiers of the tasks this one
  blocks; the tx source that declares it is missing.
\<close>

datatype status = Open | Completed

datatype field_value = Text string | DateValue date | EnumValue string

record completion_record =
  completed_at :: int
  elapsed :: "nat option"
  completion_note :: string

record Task =
  tid :: string
  description :: string
  created :: int
  status :: status
  discovered :: "(string \<times> field_value) list"
  deadline :: "date option"
  recurrence :: "recurrence option"
  completion :: "completion_record option"
  blocks :: "string list"

subsection \<open>Dependency graph\<close>

text \<open>
  Modelled from the spec: \<open>isBlocked\<close> (sections 3 and 4.4), "a task is blocked iff at
  least one task in its inbound edge set has status open", edges being stored as
  "blocks" lists on the blocking task; the tx source of the dependency graph is missing.
\<close>

definition isBlocked :: "Task list \<Rightarrow> string \<Rightarrow> bool" where
  "isBlocked tasks i = list_ex (\<lambda>u. status u = Open \<and> i \<in> set (blocks u)) tasks"

text \<open>
  Modelled from the spec: the tasks "this one currently blocks that [are] still open"
  (section 4.5); the tx source is missing.
\<close>

definition openBlockedBy :: "Task list \<Rightarrow> Task \<Rightarrow> Task list" where
  "openBlockedBy tasks t = filter (\<lambda>u. status u = Open \<and> tid u \<in> set (blocks t)) tasks"

subsection \<open>Focus scorer\<close>

text \<open>
  Modelled from the spec: the conditions of the focus score (section 4.5), "overdue
  (deadline strictly before current date)", "due today", "priority field equals"; the
  tx source of the scorer is missing.
\<close>

definition overdue :: "date \<Rightarrow> Task \<Rightarrow> bool" where
  "overdue today t = (case deadline t of None \<Rightarrow> False | Some d \<Rightarrow> date_before d today)"

definition due_today :: "date \<Rightarrow> Task \<Rightarrow> bool" where
  "due_today today t = (deadline t = Some today)"

definition priority_is :: "Task \<Rightarrow> string \<Rightarrow> bool" where
  "priority_is t v =
     (case map_of (discovered t) ''priority'' of
        Some (Text s) \<Rightarrow> s = v
      | Some (EnumValue s) \<Rightarrow> s = v
      | _ \<Rightarrow> False)"

text \<open>
  Modelled from the spec: the contributions to the focus score (section 4.5), in the
  order the specification lists them: overdue +200, due today +100, priority "urgent"
  +100, priority "high" +50, +40 for each task this one currently blocks that is still
  open, -50 if this task is itself currently blocked; the tx source of the scorer is
  missing.
\<close>

definition contributions :: "date \<Rightarrow> Task list \<Rightarrow> Task \<Rightarrow> int list" where
  "contributions today tasks t =
     [if overdue today t then 200 else 0,
      if due_today today t then 100 else 0,
      if priority_is t ''urgent'' then 100 else 0,
      if priority_is t ''high'' then 50 else 0]
     @ map (\<lambda>u. 40) (openBlockedBy tasks t)
     @ [if isBlocked tasks (tid t) then - 50 else 0]"

text \<open>
  Modelled from the spec: the focus score (section 4.5), "the sum of independent
  contributions"; the tx source of the scorer is missing.
\<close>

definition focusScore :: "date \<Rightarrow> Task list \<Rightarrow> Task \<Rightarrow> int" where
  "focusScore today tasks t = sum_list (contributions today tasks t)"

text \<open>
  Modelled from the spec: the ranking (section 4.5), a total order over the open tasks by
  score, highest first, "ties broken by earliest deadline, then earliest creation time";
  the tx source of the scorer is missing. The specification does not place a task with
  no deadline among tied tasks; here it comes after those that have one. The sort is
  stable.
\<close>

definition rank_key :: "date \<Rightarrow> Task list \<Rightarrow> Task \<Rightarrow> int \<times> (nat \<times> int \<times> nat \<times> nat) \<times> int" where
  "rank_key today tasks t =
     (- focusScore today tasks t,
      (case deadline t of Some d \<Rightarrow> (0, date_key d) | None \<Rightarrow> (1, (0, 0, 0))),
      created t)"

definition focusRank :: "date \<Rightarrow> Task list \<Rightarrow> Task list" where
  "focusRank today tasks =
     sort_key (rank_key today tasks) (filter (\<lambda>t. status t = Open) tasks)"

subsection \<open>Recurrence engine\<close>







subsection \<open>Example tasks\<close>

definition example_today :: date where
  "example_today = \<lparr>year = 2025, month = 12, day = 2\<rparr>"

definition plain_task :: Task where
  "plain_task =
     \<lparr>tid = ''00000000'', description = '''', created = 0, status = Open, discovered = [],
      deadline = None, recurrence = None, completion = None, blocks = []\<rparr>"

definition login_bug :: Task where
  "login_bug =
     plain_task\<lparr>tid := ''a81f3c02'', description := ''fix the login bug in webapp - urgent'',
       created := 1764230400000,
       discovered := [(''action'', Text ''fix''), (''priority'', EnumValue ''urgent'')],
       deadline := Some \<lparr>year = 2025, month = 11, day = 28\<rparr>\<rparr>"

definition prepare_slides :: Task where
  "prepare_slides =
     plain_task\<lparr>tid := ''b2047d9e'', description := ''prepare slides for monday standup'',
       created := 1764316800000,
       discovered := [(''action'', Text ''prepare''), (''priority'', EnumValue ''normal'')],
       blocks := [''c39a1e55'', ''d4b60f71'']\<rparr>"

definition review_pr :: Task where
  "review_pr =
     plain_task\<lparr>tid := ''c39a1e55'', description := ''review PR for authentication feature'',
       created := 1764403200000,
       discovered := [(''priority'', EnumValue ''high'')]\<rparr>"

definition send_report :: Task where
  "send_report =
     plain_task\<lparr>tid := ''d4b60f71'', description := ''send the weekly report today'',
       created := 1764489600000,
       deadline := Some \<lparr>year = 2025, month = 12, day = 2\<rparr>\<rparr>"

definition old_chore :: Task where
  "old_chore =
     plain_task\<lparr>tid := ''f6d82b93'', description := ''buy groceries'', created := 1764000000000,
       status := Completed,
       completion := Some \<lparr>completed_at = 1764100000000, elapsed = Some 30, completion_note = ''''\<rparr>,
       blocks := [''a81f3c02'']\<rparr>"

definition example_tasks :: "Task list" where
  "example_tasks = [login_bug, prepare_slides, review_pr, send_report, old_chore]"

definition check_email :: Task where
  "check_email =
     plain_task\<lparr>tid := ''0a1b2c3d'', description := ''check email every morning'',
       created := 1764576000000,
       deadline := Some \<lparr>year = 2025, month = 12, day = 2\<rparr>,
       recurrence := Some \<lparr>frequency = Daily, anchor = None\<rparr>\<rparr>"

definition pay_rent :: Task where
  "pay_rent =
     plain_task\<lparr>tid := ''1b2c3d4e'', description := ''pay rent on the 31st'',
       created := 1759276800000,
       deadline := Some \<lparr>year = 2025, month = 10, day = 31\<rparr>,
       recurrence := Some \<lparr>frequency = Monthly, anchor = Some (OnDayOfMonth 31)\<rparr>\<rparr>"

definition pay_rent_november :: Task where
  "pay_rent_november = pay_rent\<lparr>deadline := Some \<lparr>year = 2025, month = 11, day = 30\<rparr>\<rparr>"

definition pay_rent_undated :: Task where
  "pay_rent_undated = pay_rent\<lparr>deadline := None\<rparr>"

definition badly_anchored :: Task where
  "badly_anchored =
     plain_task\<lparr>tid := ''2c3d4e5f'', description := ''water the plants every so often'',
       created := 1759276800000,
       deadline := Some \<lparr>year = 2025, month = 10, day = 31\<rparr>,
       recurrence := Some \<lparr>frequency = Weekly, anchor = Some (Unparseable ''so often'')\<rparr>\<rparr>"

section \<open>Properties of the conversation store\<close>

subsection \<open>Reading back the text of a conversation\<close>

lemma lex_spaces:
  "\<forall>c \<in> set ws. is_space c \<Longrightarrow> scan Idle acc (ws @ rest) = scan Idle acc rest"
  by (induction ws) auto

lemma hex_digit_value: "k < 16 \<Longrightarrow> hex_value (hex_digit k) = Some k"
proof -
  have "\<forall>k \<in> set [0..<16]. hex_value (hex_digit k) = Some k"
    by code_simp
  then show "k < 16 \<Longrightarrow> hex_value (hex_digit k) = Some k" by simp
qed

lemma code_unit_inverse: "char_of (code_unit c) = c"
  by (simp add: code_unit_def)

lemma lex_control:
  assumes "code_unit c < 32"
  shows "scan (Unicode p []) acc
           (CHR ''0'' # CHR ''0'' # hex_digit (code_unit c div 16) # hex_digit (code_unit c mod 16) # r)
         = scan (InString (p @ [c])) acc r"
proof -
  have z: "hex_value CHR ''0'' = Some 0" by (simp add: hex_value_def code_unit_def)
  have a: "hex_value (hex_digit (code_unit c div 16)) = Some (code_unit c div 16)"
    using assms by (intro hex_digit_value) simp
  have b: "hex_value (hex_digit (code_unit c mod 16)) = Some (code_unit c mod 16)"
    by (intro hex_digit_value) simp
  have "16 * (code_unit c div 16) + code_unit c mod 16 = code_unit c" by simp
  with assms z a b show ?thesis by (simp add: code_unit_inverse)
qed

lemma lex_escape_char:
  "scan (InString p) acc (escape_char c @ r) = scan (InString (p @ [c])) acc r"
proof -
  consider (special) "c \<in> {CHR 0x22, CHR 0x5C, CHR 0x08, CHR 0x09, CHR 0x0A, CHR 0x0C, CHR 0x0D}"
    | (control) "c \<notin> {CHR 0x22, CHR 0x5C, CHR 0x08, CHR 0x09, CHR 0x0A, CHR 0x0C, CHR 0x0D}"
        "code_unit c < 32"
    | (other) "c \<notin> {CHR 0x22, CHR 0x5C, CHR 0x08, CHR 0x09, CHR 0x0A, CHR 0x0C, CHR 0x0D}"
        "\<not> code_unit c < 32"
    by blast
  then show ?thesis
  proof cases
    case special
    then show ?thesis by (auto simp: escape_char_def unescape_def)
  next
    case control
    then show ?thesis using lex_control [of c p acc r] by (simp add: escape_char_def)
  next
    case other
    then show ?thesis by (simp add: escape_char_def)
  qed
qed

lemma lex_string_body:
  "scan (InString p) acc (concat (map escape_char s) @ CHR 0x22 # r)
     = scan Idle (acc @ [STRING (p @ s)]) r"
  by (induction s arbitrary: p) (simp_all add: lex_escape_char)

lemma lex_quote: "scan Idle acc (quote s @ r) = scan Idle (acc @ [STRING s]) r"
  using lex_string_body [of "[]" acc s r] by (simp add: quote_def is_space_def)


lemma scan_punct:
  "scan Idle acc (CHR ''['' # r) = scan Idle (acc @ [LBRACKET]) r"
  "scan Idle acc (CHR '']'' # r) = scan Idle (acc @ [RBRACKET]) r"
  "scan Idle acc (CHR ''{'' # r) = scan Idle (acc @ [LBRACE]) r"
  "scan Idle acc (CHR ''}'' # r) = scan Idle (acc @ [RBRACE]) r"
  "scan Idle acc (CHR '','' # r) = scan Idle (acc @ [COMMA]) r"
  "scan Idle acc (CHR '':'' # r) = scan Idle (acc @ [COLON]) r"
  "scan Idle acc (CHR '' '' # r) = scan Idle acc r"
  "scan Idle acc (CHR 0x0A # r) = scan Idle acc r"
  by (simp_all add: is_space_def is_digit_def is_letter_def punctuation_def code_unit_def)

lemma scan_stringify:
  "plain v \<Longrightarrow> \<forall>c \<in> set ind. is_space c \<Longrightarrow>
     scan Idle acc (stringify ind v @ r) = scan Idle (acc @ tokens v) r"
  "plain_items vs \<Longrightarrow> \<forall>c \<in> set ind. is_space c \<Longrightarrow>
     scan Idle acc (stringify_items ind vs @ r) = scan Idle (acc @ item_tokens vs) r"
  "plain_members ms \<Longrightarrow> \<forall>c \<in> set ind. is_space c \<Longrightarrow>
     scan Idle acc (stringify_members ind ms @ r) = scan Idle (acc @ member_tokens ms) r"
proof (induction ind v and ind vs and ind ms arbitrary: acc r and acc r and acc r
    rule: stringify_stringify_items_stringify_members.induct)
  case (6 ind v vs)
  have sp: "\<forall>c \<in> set (ind @ ''  ''). is_space c" using 6(4) by (auto simp: is_space_def)
  from 6(3) have pv: "plain v" and pvs: "plain_items vs" by simp_all
  note a = 6(1) [OF pv sp] and b = 6(2) [OF pvs sp]
  show ?case
    using 6(4) sp
    by (simp del: scan.simps add: scan_punct lex_spaces a b)
next
  case (8 ind k v ms)
  have sp: "\<forall>c \<in> set (ind @ ''  ''). is_space c" using 8(4) by (auto simp: is_space_def)
  from 8(3) have pv: "plain v" and pms: "plain_members ms" by simp_all
  note a = 8(1) [OF pv sp] and b = 8(2) [OF pms sp]
  show ?case
    using 8(4) sp lex_quote [of _ k]
    by (simp del: scan.simps add: scan_punct lex_spaces a b)
next
  case (10 ind v vs)
  from 10(3) have pv: "plain v" and pvs: "plain_items vs" by simp_all
  note a = 10(1) [OF pv 10(4)] and b = 10(2) [OF pvs 10(4)]
  show ?case
    using 10(4)
    by (simp del: scan.simps add: scan_punct lex_spaces a b)
next
  case (12 ind k v ms)
  from 12(3) have pv: "plain v" and pms: "plain_members ms" by simp_all
  note a = 12(1) [OF pv 12(4)] and b = 12(2) [OF pms 12(4)]
  show ?case
    using 12(4) lex_quote [of _ k]
    by (simp del: scan.simps add: scan_punct lex_spaces a b)
qed (simp_all del: scan.simps add: scan_punct lex_quote)

lemma update_fresh: "k \<notin> fst ` set ms \<Longrightarrow> AList.update k v ms = ms @ [(k, v)]"
  by (induction ms) auto

lemma parse_step: "parse e st (t # ts) = continue (step e st t) ts"
  by (simp add: continue_def split: option.splits)

lemma parse_tokens:
  "plain v \<Longrightarrow> e = Value \<or> e = ValueOrEnd \<Longrightarrow>
     parse e st (tokens v @ r) = continue (deliver v st) r"
  "plain_items vs \<Longrightarrow>
     parse CommaOrEnd (ArrayFrame acc # st) (item_tokens vs @ RBRACKET # r)
       = continue (deliver (JArray (acc @ vs)) st) r"
  "plain_members ms \<Longrightarrow> distinct (map fst ms) \<Longrightarrow> fst ` set macc \<inter> fst ` set ms = {} \<Longrightarrow>
     parse CommaOrEnd (ObjectFrame macc None # st) (member_tokens ms @ RBRACE # r)
       = continue (deliver (JObject (macc @ ms)) st) r"
proof (induction v and vs and ms arbitrary: e st r and acc st r and macc st r
    rule: tokens_item_tokens_member_tokens.induct)
  case (4 s)
  then show ?case by (auto simp: continue_def)
next
  case (5)
  then show ?case by (auto simp: parse_step continue_def)
next
  case (6 v vs)
  from 6(3) have pv: "plain v" and pvs: "plain_items vs" by simp_all
  have "parse e st (tokens (JArray (v # vs)) @ r)
          = parse ValueOrEnd (ArrayFrame [] # st) (tokens v @ (item_tokens vs @ RBRACKET # r))"
    using 6(4) by (auto simp: parse_step continue_def)
  also have "\<dots> = parse CommaOrEnd (ArrayFrame [v] # st) (item_tokens vs @ RBRACKET # r)"
    by (simp add: 6(1) [OF pv] continue_def)
  also have "\<dots> = continue (deliver (JArray ([v] @ vs)) st) r"
    by (rule 6(2) [OF pvs])
  finally show ?case by simp
next
  case (7)
  then show ?case by (auto simp: parse_step continue_def)
next
  case (8 k v ms)
  from 8(3) have pv: "plain v" and pms: "plain_members ms"
    and d: "distinct (map fst ms)" and k: "k \<notin> fst ` set ms" by simp_all
  have "parse e st (tokens (JObject ((k, v) # ms)) @ r)
          = parse Value (ObjectFrame [] (Some k) # st) (tokens v @ (member_tokens ms @ RBRACE # r))"
    using 8(4) by (auto simp: parse_step continue_def)
  also have "\<dots> = parse CommaOrEnd (ObjectFrame [(k, v)] None # st) (member_tokens ms @ RBRACE # r)"
    by (simp add: 8(1) [OF pv] continue_def)
  also have "\<dots> = continue (deliver (JObject ([(k, v)] @ ms)) st) r"
    using k by (intro 8(2) [OF pms d]) simp
  finally show ?case by simp
next
  case (9)
  then show ?case by (simp add: continue_def)
next
  case (10 v vs)
  from 10(3) have pv: "plain v" and pvs: "plain_items vs" by simp_all
  have "parse CommaOrEnd (ArrayFrame acc # st) (item_tokens (v # vs) @ RBRACKET # r)
          = parse Value (ArrayFrame acc # st) (tokens v @ (item_tokens vs @ RBRACKET # r))"
    by (simp add: parse_step continue_def)
  also have "\<dots> = parse CommaOrEnd (ArrayFrame (acc @ [v]) # st) (item_tokens vs @ RBRACKET # r)"
    by (simp add: 10(1) [OF pv] continue_def)
  also have "\<dots> = continue (deliver (JArray ((acc @ [v]) @ vs)) st) r"
    by (rule 10(2) [OF pvs])
  finally show ?case by simp
next
  case (11)
  then show ?case by (simp add: continue_def)
next
  case (12 k v ms)
  from 12(3) have pv: "plain v" and pms: "plain_members ms" by simp_all
  from 12(4) have d: "distinct (map fst ms)" and k: "k \<notin> fst ` set ms" by simp_all
  from 12(5) have fresh: "k \<notin> fst ` set macc" and dis: "fst ` set macc \<inter> fst ` set ms = {}"
    by auto
  have "parse CommaOrEnd (ObjectFrame macc None # st) (member_tokens ((k, v) # ms) @ RBRACE # r)
          = parse Value (ObjectFrame macc (Some k) # st) (tokens v @ (member_tokens ms @ RBRACE # r))"
    by (simp add: parse_step continue_def)
  also have "\<dots> = parse CommaOrEnd (ObjectFrame (macc @ [(k, v)]) None # st)
                       (member_tokens ms @ RBRACE # r)"
    by (simp add: 12(1) [OF pv] continue_def update_fresh [OF fresh])
  also have "\<dots> = continue (deliver (JObject ((macc @ [(k, v)]) @ ms)) st) r"
    using k dis by (intro 12(2) [OF pms d]) auto
  finally show ?case by simp
qed simp_all

lemma parse_plain: "plain v \<Longrightarrow> parse Value [] (tokens v) = Some v"
  using parse_tokens(1) [of v Value "[]" "[]"] by (simp add: continue_def)

lemma parse_stringify: "plain v \<Longrightarrow> JSON_parse_text (stringify [] v) = Some v"
  using scan_stringify(1) [of v "[]" "[]" "[]"] by (simp add: JSON_parse_text_def parse_plain)

lemma role_of_name_role_name: "role_of_name (role_name r) = Some r"
  by (cases r) (simp_all add: role_of_name_def role_name_def)

lemma as_StoredMessage_message_json: "as_StoredMessage (message_json m) = Some m"
  by (simp add: as_StoredMessage_def message_json_def string_property_def role_of_name_role_name)

lemma as_MessageHistory_history_json: "as_MessageHistory (history_json h) = Some h"
  by (simp add: as_MessageHistory_def history_json_def string_property_def
        as_StoredMessage_message_json list_all_iff comp_def)

lemma plain_items_messages: "plain_items (map message_json ms)"
  by (induction ms) (simp_all add: message_json_def)

lemma plain_history_json: "plain (history_json h)"
  by (simp add: history_json_def plain_items_messages)

lemma JSON_parse_text_JSON_text: "JSON_parse_text (JSON_text h) = Some (history_json h)"
  by (simp add: JSON_text_def parse_stringify plain_history_json)

lemma read_text_JSON_text: "read_text (JSON_text h) = Serialised h"
  by (simp add: read_text_def JSON_parse_text_JSON_text as_MessageHistory_history_json)

lemma JSON_stringify_eq: "JSON_stringify h = Serialised h"
  by (simp add: JSON_stringify_def read_text_JSON_text)

subsection \<open>Directories\<close>

lemma history_ensureDirectories [simp]: "history (ensureDirectories d) = history d"
  by (simp add: ensureDirectories_def mkdirSync_def Let_def)

lemma active_message_ensureDirectories [simp]:
  "active_message (ensureDirectories d) = active_message d"
  by (simp add: ensureDirectories_def mkdirSync_def Let_def)

lemma history_dir_ensureDirectories [simp]: "history_dir (ensureDirectories d)"
  by (simp add: ensureDirectories_def mkdirSync_def Let_def)

lemma config_dir_ensureDirectories [simp]: "config_dir (ensureDirectories d)"
  by (simp add: ensureDirectories_def mkdirSync_def Let_def)

lemma home_ensureDirectories [simp]: "home (ensureDirectories d) = home d"
  by (simp add: ensureDirectories_def mkdirSync_def Let_def)

lemma other_dirs_ensureDirectories [simp]: "other_dirs (ensureDirectories d) = other_dirs d"
  by (simp add: ensureDirectories_def mkdirSync_def Let_def)

lemma other_files_ensureDirectories [simp]: "other_files (ensureDirectories d) = other_files d"
  by (simp add: ensureDirectories_def mkdirSync_def Let_def)

lemma ensureDirectories_idem [simp]:
  "ensureDirectories (ensureDirectories d) = ensureDirectories d"
  by (simp add: ensureDirectories_def mkdirSync_def Let_def)

lemma ensureDirectories_present:
  "config_dir d \<Longrightarrow> history_dir d \<Longrightarrow> ensureDirectories d = d"
  by (simp add: ensureDirectories_def)

lemma calls_ensureDirectories:
  "\<exists>ks. calls (ensureDirectories d) = calls d @ ks \<and> only_mkdir ks"
  by (auto simp: ensureDirectories_def mkdirSync_def Let_def only_mkdir_def)

lemma loadActiveMessage_eq:
  "loadActiveMessage d =
     ((case active_message d of
         None \<Rightarrow> None
       | Some (Malformed s) \<Rightarrow> None
       | Some (Serialised h) \<Rightarrow> Some h), ensureDirectories d)"
  by (simp add: loadActiveMessage_def Let_def split: option.splits file_text.splits)

subsection \<open>Strings\<close>

lemma replace_first_stem:
  "CHR ''.'' \<notin> set i \<Longrightarrow> replace_first ''.json'' '''' (i @ ''.json'') = i"
  by (induction i) auto

subsection \<open>Sorting\<close>

lemma mset_sort_insert: "mset (sort_insert cmp x ys) = add_mset x (mset ys)"
  by (induction ys) auto

lemma mset_array_sort: "mset (array_sort cmp xs) = mset xs"
  by (induction xs) (auto simp: mset_sort_insert)

lemma set_sort_insert: "set (sort_insert cmp x ys) = insert x (set ys)"
  by (induction ys) auto

lemma set_array_sort: "set (array_sort cmp xs) = set xs"
  by (induction xs) (auto simp: set_sort_insert)

lemma sorted_sort_insert:
  assumes "sorted_wrt (newer_first g) ys"
    and "\<forall>r \<in> set (x # ys). g (rec_updated r) \<noteq> None"
  shows "sorted_wrt (newer_first g) (sort_insert (byUpdated g) x ys)"
  using assms
proof (induction ys)
  case Nil
  then show ?case by simp
next
  case (Cons y ys)
  from Cons.prems obtain tx ty
    where tx: "g (rec_updated x) = Some tx" and ty: "g (rec_updated y) = Some ty"
    by auto
  have cmp: "byUpdated g x y = Some (ty - tx)"
    using tx ty by (simp add: byUpdated_def)
  show ?case
  proof (cases "ty - tx \<le> 0")
    case True
    have xy: "newer_first g x y" using tx ty True by (simp add: newer_first_def)
    have "\<forall>z \<in> set ys. newer_first g x z"
    proof
      fix z assume "z \<in> set ys"
      with Cons.prems(1) have "newer_first g y z" by simp
      with tx ty True show "newer_first g x z" by (auto simp: newer_first_def)
    qed
    with xy Cons.prems(1) True cmp show ?thesis by simp
  next
    case False
    have yx: "newer_first g y x" using tx ty False by (simp add: newer_first_def)
    have "sorted_wrt (newer_first g) (sort_insert (byUpdated g) x ys)"
      using Cons by simp
    with yx Cons.prems(1) False cmp show ?thesis
      by (simp add: set_sort_insert)
  qed
qed

lemma sorted_array_sort:
  "\<forall>r \<in> set xs. g (rec_updated r) \<noteq> None \<Longrightarrow>
   sorted_wrt (newer_first g) (array_sort (byUpdated g) xs)"
  by (induction xs) (auto intro!: sorted_sort_insert simp: set_array_sort)

lemma collect_eq: "collect files records = records @ map toRecord (parsed files)"
  by (induction files records rule: collect.induct)
     (auto split: sum.splits file_text.splits elim: JSON_parse.elims)

lemma parsed_member:
  "(f, Serialised h) \<in> set files \<Longrightarrow> h \<in> set (parsed files)"
  by (induction files rule: parsed.induct) auto

lemma parsed_origin:
  "h \<in> set (parsed files) \<Longrightarrow> \<exists>f. (f, Serialised h) \<in> set files"
  by (induction files rule: parsed.induct) auto

lemma listHistory_eq:
  "fst (listHistory g d) = array_sort (byUpdated g)
      (map toRecord (parsed (filter (\<lambda>(f, text). endsWith f ''.json'') (history d))))"
  by (simp add: listHistory_def Let_def collect_eq)

lemma find_first:
  "xs = pre @ m # post \<Longrightarrow> \<forall>x \<in> set pre. \<not> P x \<Longrightarrow> P m \<Longrightarrow> find P xs = Some m"
  by (induction pre arbitrary: xs) auto

lemma find_none: "\<forall>x \<in> set xs. \<not> P x \<Longrightarrow> find P xs = None"
  by (induction xs) auto

subsection \<open>The files a prefix matches\<close>

lemma filter_names:
  "map fst (filter (\<lambda>(f, text). P f) xs) = filter P (map fst xs)"
  by (induction xs) auto

lemma single_match:
  assumes "(n, t) \<in> set xs" "distinct (map fst xs)" "P n"
    and "\<forall>(f, text) \<in> set xs. P f \<longrightarrow> f = n"
  shows "filter (\<lambda>(f, text). P f) xs = [(n, t)]"
  using assms
proof (induction xs)
  case Nil
  then show ?case by simp
next
  case (Cons a xs)
  obtain f u where a: "a = (f, u)" by (cases a)
  show ?case
  proof (cases "f = n")
    case True
    have "u = t"
    proof (rule ccontr)
      assume "u \<noteq> t"
      with Cons.prems(1) a True have "(n, t) \<in> set xs" by auto
      then have "n \<in> fst ` set xs" by force
      with Cons.prems(2) a True show False by simp
    qed
    then have u: "u = t" .
    have "\<forall>(g, text) \<in> set xs. \<not> P g"
    proof (clarify)
      fix g w assume m: "(g, w) \<in> set xs" and "P g"
      with Cons.prems(4) have "g = n" by auto
      with m have "n \<in> fst ` set xs" by force
      with Cons.prems(2) a True show False by simp
    qed
    then have "filter (\<lambda>(f, text). P f) xs = []" by (auto simp: filter_empty_conv)
    with a True u Cons.prems(3) show ?thesis by simp
  next
    case False
    with Cons.prems a have "\<not> P f" by auto
    moreover have "filter (\<lambda>(f, text). P f) xs = [(n, t)]"
      using Cons False a by auto
    ultimately show ?thesis using a by simp
  qed
qed

lemma prefix_without_dot:
  assumes "CHR ''.'' \<notin> set guid"
  shows "startsWith (i @ ''.json'') guid \<longleftrightarrow> prefix guid i"
proof
  assume "startsWith (i @ ''.json'') guid"
  then have "prefix guid i \<or> (\<exists>us. guid = i @ us \<and> prefix us ''.json'')"
    by (simp add: startsWith_def prefix_append)
  then show "prefix guid i"
  proof
    assume "prefix guid i" then show ?thesis .
  next
    assume "\<exists>us. guid = i @ us \<and> prefix us ''.json''"
    then obtain us where g: "guid = i @ us" and p: "prefix us ''.json''" by blast
    show ?thesis
    proof (cases us)
      case Nil
      with g show ?thesis by simp
    next
      case (Cons u us')
      with p have "u = CHR ''.''" by simp
      with g Cons assms show ?thesis by simp
    qed
  qed
next
  assume "prefix guid i"
  then show "startsWith (i @ ''.json'') guid" by (simp add: startsWith_def)
qed

subsection \<open>Where \<open>archiveToHistory\<close> writes\<close>

lemma split_on_absent: "sep \<notin> set s \<Longrightarrow> split_on sep s = [s]"
  by (induction s) auto

lemma join_single_component:
  assumes "CHR ''/'' \<notin> set i"
  shows "join_HISTORY_DIR d (i @ ''.json'') = HistoryEntry (i @ ''.json'')"
proof -
  have s: "split_on CHR ''/'' (i @ ''.json'') = [i @ ''.json'']"
    using assms by (intro split_on_absent) simp
  have n: "i @ ''.json'' \<noteq> [] \<and> i @ ''.json'' \<noteq> ''.'' \<and> i @ ''.json'' \<noteq> ''..''"
    by (cases i rule: rev_cases) (auto simp: append_eq_Cons_conv)
  show ?thesis
    using n by (simp add: join_HISTORY_DIR_def s locate_def butlast_append)
qed

lemma archiveToHistory_entry:
  "single_component (hist_id c @ ''.json'') \<Longrightarrow>
   archiveToHistory c d = Returns ()
     ((ensureDirectories d)\<lparr>history := AList.update (hist_id c @ ''.json'') (Serialised c) (history d),
        calls := calls (ensureDirectories d)
                   @ [WriteFileSync (HistoryEntry (hist_id c @ ''.json'')) (Serialised c)]\<rparr>)"
  by (simp add: archiveToHistory_def Let_def JSON_stringify_eq single_component_def
        join_single_component writeFileSync_def)

lemma saveActiveMessage_eq:
  "saveActiveMessage now h d =
     Returns (h\<lparr>hist_updated := now\<rparr>)
       ((ensureDirectories d)\<lparr>active_message := Some (Serialised (h\<lparr>hist_updated := now\<rparr>)),
          calls := calls (ensureDirectories d)
                     @ [WriteFileSync ACTIVE_MESSAGE_PATH (Serialised (h\<lparr>hist_updated := now\<rparr>))]\<rparr>)"
  by (simp add: saveActiveMessage_def Let_def JSON_stringify_eq writeFileSync_def)

lemma saveRestored_eq:
  "saveRestored now h d =
     Returns Success
       ((ensureDirectories d)\<lparr>active_message := Some (Serialised (h\<lparr>hist_updated := now\<rparr>)),
          calls := calls (ensureDirectories d)
                     @ [WriteFileSync ACTIVE_MESSAGE_PATH (Serialised (h\<lparr>hist_updated := now\<rparr>))]\<rparr>)"
  by (simp add: saveRestored_def saveActiveMessage_eq)

subsection \<open>The single-match path of \<open>restoreHistory\<close>\<close>

lemma restoreHistory_single:
  assumes "filter (\<lambda>(f, text). endsWith f ''.json'' \<and> startsWith f guid) (history d)
             = [(n, Serialised h)]"
  shows "restoreHistory now guid d =
     (case active_message d of
        Some (Serialised c) \<Rightarrow>
          if messages c = [] then saveRestored now h (ensureDirectories d)
          else (case archiveToHistory c (ensureDirectories d) of
                  Throws e d2 \<Rightarrow> Throws e d2
                | Returns u d2 \<Rightarrow> saveRestored now h d2)
      | _ \<Rightarrow> saveRestored now h (ensureDirectories d))"
  using assms
  by (simp add: restoreHistory_def Let_def loadActiveMessage_eq saveRestored_def
        split: option.splits file_text.splits outcome.splits)

lemma restoreHistory_single_ok:
  assumes "filter (\<lambda>(f, text). endsWith f ''.json'' \<and> startsWith f guid) (history d)
             = [(n, Serialised h)]"
    and "\<not> archive_throws d"
  shows "\<exists>d'. restoreHistory now guid d = Returns Success d'
            \<and> active_message d' = Some (Serialised (h\<lparr>hist_updated := now\<rparr>))"
  using assms(2)
  by (auto simp: restoreHistory_single [OF assms(1)] archive_throws_def loadActiveMessage_eq
        saveRestored_eq split: option.splits file_text.splits outcome.splits)

lemma only_mkdir_no_write: "only_mkdir ks \<Longrightarrow> \<not> via_temporary t ks"
  by (induction ks) (auto simp: only_mkdir_def split: fs_call.splits)

subsection \<open>Evaluating the examples\<close>

lemmas example_defs = example_disk_def example_store_def nested_store_def
  traversal_store_def dotted_store_def unarchivable_store_def
  first_conversation_def second_conversation_def active_conversation_def

lemmas string_tests = startsWith_def endsWith_def suffix_to_prefix

lemmas example_runs = restoreHistory_def clearActiveMessage_def loadActiveMessage_eq
  archiveToHistory_def saveActiveMessage_def JSON_stringify_eq writeFileSync_def
  join_HISTORY_DIR_def locate_def is_directory_def is_file_def ensureDirectories_def
  archive_throws_def single_component_def Let_def example_defs string_tests
subsection \<open>Runs on the example disks\<close>

lemma history_examples:
  "history example_disk
     = [(''7c1e02aa.json'', Malformed ''''), (''notes.txt'', Malformed ''x''),
        (''7c1e9b40.json'', Malformed ''{'')]"
  "history example_store
     = [(''7c1e02aa.json'', Serialised first_conversation),
        (''broken.json'', Malformed ''{ id: ''),
        (''3b9d77e1.json'', Serialised second_conversation),
        (''notes.txt'', Malformed ''remember to archive'')]"
  "history nested_store
     = [(''7c1e.json'', Serialised (first_conversation\<lparr>hist_id := ''7c1e''\<rparr>)),
        (''7c1e02aa.json'', Serialised first_conversation)]"
  "history unarchivable_store = history example_store"
  "history traversal_store = history example_store"
  by (simp_all add: example_disk_def example_store_def nested_store_def unarchivable_store_def
        traversal_store_def)

lemma calls_examples:
  "calls example_disk = []"
  "calls example_store = []"
  "calls traversal_store = []"
  by (simp_all add: example_disk_def example_store_def traversal_store_def)

lemma hist_id_examples:
  "hist_id first_conversation = ''7c1e02aa''"
  "hist_id second_conversation = ''3b9d77e1''"
  "hist_id active_conversation = ''5d0f3a6c''"
  by (simp_all add: first_conversation_def second_conversation_def active_conversation_def)

lemma archive_throws_examples:
  "archive_throws unarchivable_store"
  "\<not> archive_throws example_store"
  by (simp_all add: example_runs)

lemma restoreHistory_not_found_example:
  "restoreHistory now ''ffff'' example_store = Returns Not_found example_store"
  by (simp add: example_runs)

lemma restoreHistory_ambiguous_example:
  "restoreHistory now ''7c1e'' nested_store
     = Returns (Ambiguous [''7c1e'', ''7c1e02aa'']) nested_store"
  by (simp add: example_runs)

lemma restoreHistory_malformed_example:
  "restoreHistory now ''7c1e0'' example_disk = Throws SyntaxError example_disk"
  by (simp add: example_runs)

lemma restoreHistory_unarchivable_example:
  "restoreHistory now ''3b'' unarchivable_store = Throws ENOENT unarchivable_store"
  by (simp add: example_runs)

lemma restoreHistory_unarchivable_full_example:
  "restoreHistory now ''3b9d77e1'' unarchivable_store = Throws ENOENT unarchivable_store"
  by (simp add: example_runs)

lemma restoreHistory_success_example:
  "restoreHistory now ''3b'' example_store
     = Returns Success
         (example_store
            \<lparr>active_message := Some (Serialised (second_conversation\<lparr>hist_updated := now\<rparr>)),
             history := history example_store @ [(''5d0f3a6c.json'', Serialised active_conversation)],
             calls := [WriteFileSync (HistoryEntry ''5d0f3a6c.json'') (Serialised active_conversation),
                       WriteFileSync ACTIVE_MESSAGE_PATH
                         (Serialised (second_conversation\<lparr>hist_updated := now\<rparr>))]\<rparr>)"
  by (simp add: example_runs)

lemma restoreHistory_full_identifier_example:
  "restoreHistory now ''7c1e02aa'' example_store
     = Returns Success
         (example_store
            \<lparr>active_message := Some (Serialised (first_conversation\<lparr>hist_updated := now\<rparr>)),
             history := history example_store @ [(''5d0f3a6c.json'', Serialised active_conversation)],
             calls := [WriteFileSync (HistoryEntry ''5d0f3a6c.json'') (Serialised active_conversation),
                       WriteFileSync ACTIVE_MESSAGE_PATH
                         (Serialised (first_conversation\<lparr>hist_updated := now\<rparr>))]\<rparr>)"
  by (simp add: example_runs)

lemma restoreHistory_file_name_example:
  "restoreHistory now ''7c1e02aa.js'' example_store
     = restoreHistory now ''7c1e02aa'' example_store"
  by (simp add: example_runs)

lemma saveActiveMessage_example:
  "saveActiveMessage now active_conversation example_disk
     = Returns (active_conversation\<lparr>hist_updated := now\<rparr>)
         (example_disk
            \<lparr>active_message := Some (Serialised (active_conversation\<lparr>hist_updated := now\<rparr>)),
             calls := [WriteFileSync ACTIVE_MESSAGE_PATH
                         (Serialised (active_conversation\<lparr>hist_updated := now\<rparr>))]\<rparr>)"
  by (simp add: saveActiveMessage_eq ensureDirectories_def example_disk_def)

lemma archiveToHistory_example:
  "archiveToHistory active_conversation example_disk
     = Returns ()
         (example_disk
            \<lparr>history := history example_disk @ [(''5d0f3a6c.json'', Serialised active_conversation)],
             calls := [WriteFileSync (HistoryEntry ''5d0f3a6c.json'')
                         (Serialised active_conversation)]\<rparr>)"
  by (simp add: example_runs)

section \<open>The claims about the conversation store\<close>

subsection \<open>Resolving a prefix\<close>

text \<open>
  C4. The history directory holds the records with the identifiers \<open>a.json\<close> and
  \<open>a.jsonb\<close>, in the files \<open>a.json.json\<close> and \<open>a.jsonb.json\<close>. Both identifiers start
  with \<open>a\<close>. Resolving \<open>a\<close> returns the typed outcome \<open>ambiguous\<close> with two entries, but
  the entries are \<open>a.json\<close> and \<open>ab.json\<close>: the second is not the full identifier of a
  matching record, because \<open>f.replace(".json", "")\<close> removes the first \<open>.json\<close> of the
  file name, not the extension.
\<close>

theorem ambiguous_entry_is_not_the_identifier:
  "restoreHistory ''2025-03-01T10:00:00.000Z'' ''a'' dotted_store
     = Returns (Ambiguous [''a.json'', ''ab.json'']) dotted_store
   \<and> stored_identifiers dotted_store = [''a.json'', ''a.jsonb'']
   \<and> filter (prefix ''a'') (stored_identifiers dotted_store) = [''a.json'', ''a.jsonb'']
   \<and> ''ab.json'' \<notin> set (stored_identifiers dotted_store)"
  by (simp add: restoreHistory_def ensureDirectories_def Let_def dotted_store_def string_tests
        stored_identifiers_def)

text \<open>
  C1, as the code has it. \<open>restoreHistory\<close> classifies a prefix by a literal,
  case-sensitive prefix test over the stored file names \<open>identifier.json\<close>, not over the
  identifiers: it returns \<open>not_found\<close> when no name has the prefix, \<open>ambiguous\<close> with
  every matching name (its \<open>.json\<close> removed) when two or more have it, and \<open>success\<close>
  when exactly one has it, its record parses and archiving the active conversation does
  not throw. The three cases exclude each other, and the outcome is a function of the
  disk and the prefix. For a prefix that holds no dot, the test over \<open>identifier.json\<close>
  is the test over the identifier.
\<close>

theorem restoreHistory_classifies_by_file_name:
  "(let names = filter (\<lambda>f. endsWith f ''.json'' \<and> startsWith f guid) (map fst (history d))
    in (names = [] \<longrightarrow> restoreHistory now guid d = Returns Not_found (ensureDirectories d))
     \<and> (2 \<le> length names \<longrightarrow>
          restoreHistory now guid d
            = Returns (Ambiguous (map (replace_first ''.json'' '''') names)) (ensureDirectories d))
     \<and> (length names = 1
          \<and> (\<forall>f text. (f, text) \<in> set (history d) \<and> endsWith f ''.json'' \<and> startsWith f guid
                \<longrightarrow> (\<exists>h. text = Serialised h))
          \<and> \<not> archive_throws d
          \<longrightarrow> (\<exists>d'. restoreHistory now guid d = Returns Success d')))
   \<and> (CHR ''.'' \<notin> set guid \<longrightarrow> (\<forall>i. startsWith (i @ ''.json'') guid \<longleftrightarrow> prefix guid i))"
proof -
  let ?P = "\<lambda>f. endsWith f ''.json'' \<and> startsWith f guid"
  let ?files = "filter (\<lambda>(f, text). ?P f) (history d)"
  let ?names = "filter ?P (map fst (history d))"
  have names: "?names = map fst ?files"
    by (rule filter_names [symmetric])
  have nf: "restoreHistory now guid d = Returns Not_found (ensureDirectories d)" if "?names = []"
    using that names by (simp add: restoreHistory_def Let_def)
  have amb: "restoreHistory now guid d
            = Returns (Ambiguous (map (replace_first ''.json'' '''') ?names)) (ensureDirectories d)"
    if "2 \<le> length ?names"
  proof -
    have "map (\<lambda>(f, text). replace_first ''.json'' '''' f) ?files
            = map (replace_first ''.json'' '''') (map fst ?files)"
      by (simp add: case_prod_unfold)
    moreover from that names have "2 \<le> length ?files" by simp
    then have "?files \<noteq> [] \<and> 1 < length ?files" by auto
    ultimately show ?thesis using names by (simp add: restoreHistory_def Let_def)
  qed
  have one: "\<exists>d'. restoreHistory now guid d = Returns Success d'"
    if len: "length ?names = 1"
      and ok: "\<forall>f text. (f, text) \<in> set (history d) \<and> endsWith f ''.json'' \<and> startsWith f guid
                \<longrightarrow> (\<exists>h. text = Serialised h)"
      and ar: "\<not> archive_throws d"
  proof -
    from len names have "length ?files = 1" by simp
    then obtain n t where nt: "?files = [(n, t)]"
      by (cases ?files) auto
    then have "(n, t) \<in> set ?files" by simp
    then have "(n, t) \<in> set (history d) \<and> ?P n" by auto
    with ok obtain h where "t = Serialised h" by blast
    with nt have "?files = [(n, Serialised h)]" by simp
    from restoreHistory_single_ok [OF this ar] show ?thesis by blast
  qed
  from nf amb one prefix_without_dot show ?thesis by (simp add: Let_def)
qed

theorem restoreHistory_classifies_by_file_name_witness:
  "filter (\<lambda>f. endsWith f ''.json'' \<and> startsWith f ''ffff'') (map fst (history example_store)) = []
   \<and> returned (restoreHistory ''2025-03-01T10:00:00.000Z'' ''ffff'' example_store) = Some Not_found
   \<and> length (filter (\<lambda>f. endsWith f ''.json'' \<and> startsWith f ''7c1e'')
               (map fst (history nested_store))) = 2
   \<and> returned (restoreHistory ''2025-03-01T10:00:00.000Z'' ''7c1e'' nested_store)
       = Some (Ambiguous [''7c1e'', ''7c1e02aa''])
   \<and> length (filter (\<lambda>f. endsWith f ''.json'' \<and> startsWith f ''3b'')
               (map fst (history example_store))) = 1
   \<and> filter (\<lambda>(f, text). endsWith f ''.json'' \<and> startsWith f ''3b'') (history example_store)
       = [(''3b9d77e1.json'', Serialised second_conversation)]
   \<and> \<not> archive_throws example_store
   \<and> returned (restoreHistory ''2025-03-01T10:00:00.000Z'' ''3b'' example_store) = Some Success
   \<and> CHR ''.'' \<notin> set ''3b''
   \<and> startsWith (''3b9d77e1'' @ ''.json'') ''3b'' \<and> prefix ''3b'' ''3b9d77e1''"
  using restoreHistory_classifies_by_file_name [of "''ffff''" example_store "''2025-03-01T10:00:00.000Z''"]
        restoreHistory_classifies_by_file_name [of "''7c1e''" nested_store "''2025-03-01T10:00:00.000Z''"]
        restoreHistory_classifies_by_file_name [of "''3b''" example_store "''2025-03-01T10:00:00.000Z''"]
  by (simp add: history_examples archive_throws_examples restoreHistory_not_found_example
        restoreHistory_ambiguous_example restoreHistory_success_example string_tests)

text \<open>
  C1 as stated fails. The only stored identifiers are \<open>7c1e02aa\<close> and \<open>3b9d77e1\<close>, the
  prefix \<open>7c1e02aa.js\<close> is a prefix of neither, so the resolver of the specification
  says \<open>not_found\<close>; \<open>restoreHistory\<close> matches the file name \<open>7c1e02aa.json\<close> and
  returns \<open>success\<close>. And a single match is not always \<open>success\<close>: where the one
  matching file does not parse, and where the active conversation cannot be archived,
  \<open>restoreHistory\<close> returns none of the three outcomes, it throws.
\<close>

theorem classify_by_identifier_counterexample:
  "returned (restoreHistory ''2025-03-01T10:00:00.000Z'' ''7c1e02aa.js'' example_store) = Some Success
   \<and> stored_identifiers example_store = [''7c1e02aa'', ''3b9d77e1'']
   \<and> classify_by_identifier (stored_identifiers example_store) ''7c1e02aa.js'' = Not_found
   \<and> filter (\<lambda>f. endsWith f ''.json'' \<and> startsWith f ''7c1e0'') (map fst (history example_disk))
       = [''7c1e02aa.json'']
   \<and> restoreHistory ''2025-03-01T10:00:00.000Z'' ''7c1e0'' example_disk
       = Throws SyntaxError example_disk
   \<and> classify_by_identifier (stored_identifiers unarchivable_store) ''3b'' = Success
   \<and> restoreHistory ''2025-03-01T10:00:00.000Z'' ''3b'' unarchivable_store
       = Throws ENOENT unarchivable_store"
  by (simp add: restoreHistory_file_name_example restoreHistory_full_identifier_example
        restoreHistory_malformed_example restoreHistory_unarchivable_example
        history_examples classify_by_identifier_def stored_identifiers_def string_tests)

text \<open>
  C5, as the code has it. The full identifier \<open>g\<close> of a stored record that parses
  resolves to that record, which becomes the active conversation (stamped with the time
  of the restore), provided the file names of the history directory are distinct, no
  other stored file name that ends in \<open>.json\<close> starts with \<open>g\<close>, and archiving the
  active conversation does not throw. A file name \<open>f\<close> that ends in \<open>.json\<close>, starts
  with \<open>g\<close> and is as long as \<open>g.json\<close> is \<open>g.json\<close>: of identifiers of one common
  length, none matches the file of another.
\<close>

theorem full_identifier_resolves:
  "((g @ ''.json'', Serialised h) \<in> set (history d)
      \<and> distinct (map fst (history d))
      \<and> (\<forall>(f, text) \<in> set (history d). endsWith f ''.json'' \<and> startsWith f g \<longrightarrow> f = g @ ''.json'')
      \<and> \<not> archive_throws d
     \<longrightarrow> (\<exists>d'. restoreHistory now g d = Returns Success d'
            \<and> active_message d' = Some (Serialised (h\<lparr>hist_updated := now\<rparr>))))
   \<and> (\<forall>f. endsWith f ''.json'' \<and> startsWith f g \<and> length f = length (g @ ''.json'')
          \<longrightarrow> f = g @ ''.json'')"
proof -
  have a: "\<exists>d'. restoreHistory now g d = Returns Success d'
            \<and> active_message d' = Some (Serialised (h\<lparr>hist_updated := now\<rparr>))"
    if m: "(g @ ''.json'', Serialised h) \<in> set (history d)"
      and di: "distinct (map fst (history d))"
      and u: "\<forall>(f, text) \<in> set (history d). endsWith f ''.json'' \<and> startsWith f g \<longrightarrow> f = g @ ''.json''"
      and ar: "\<not> archive_throws d"
  proof -
    have "endsWith (g @ ''.json'') ''.json'' \<and> startsWith (g @ ''.json'') g"
      by (simp add: endsWith_def startsWith_def suffix_def)
    with m di u
    have "filter (\<lambda>(f, text). endsWith f ''.json'' \<and> startsWith f g) (history d)
            = [(g @ ''.json'', Serialised h)]"
      by (intro single_match [where P = "\<lambda>f. endsWith f ''.json'' \<and> startsWith f g"]) auto
    from restoreHistory_single_ok [OF this ar] show ?thesis .
  qed
  have b: "f = g @ ''.json''"
    if "endsWith f ''.json''" "startsWith f g" "length f = length (g @ ''.json'')" for f
  proof -
    from that(1) obtain i where f: "f = i @ ''.json''"
      by (auto simp: endsWith_def suffix_def)
    from that(2) obtain r where r: "f = g @ r"
      by (auto simp: startsWith_def prefix_def)
    from f that(3) have "length i = length g" by simp
    with f r have "i = g" by (metis append_eq_append_conv)
    with f show ?thesis by simp
  qed
  from a b show ?thesis by blast
qed

theorem full_identifier_resolves_witness:
  "(''7c1e02aa.json'', Serialised first_conversation) \<in> set (history example_store)
   \<and> distinct (map fst (history example_store))
   \<and> filter (\<lambda>(f, text). endsWith f ''.json'' \<and> startsWith f ''7c1e02aa'') (history example_store)
       = [(''7c1e02aa.json'', Serialised first_conversation)]
   \<and> \<not> archive_throws example_store
   \<and> returned (restoreHistory ''2025-03-01T10:00:00.000Z'' ''7c1e02aa'' example_store) = Some Success
   \<and> active_message (disk_of (restoreHistory ''2025-03-01T10:00:00.000Z'' ''7c1e02aa'' example_store))
       = Some (Serialised (first_conversation\<lparr>hist_updated := ''2025-03-01T10:00:00.000Z''\<rparr>))
   \<and> endsWith ''7c1e02aa.json'' ''.json'' \<and> startsWith ''7c1e02aa.json'' ''7c1e02aa''
   \<and> length ''7c1e02aa.json'' = length (''7c1e02aa'' @ ''.json'')"
  using full_identifier_resolves
          [of "''7c1e02aa''" first_conversation example_store "''2025-03-01T10:00:00.000Z''"]
  by (simp add: history_examples archive_throws_examples restoreHistory_full_identifier_example
        string_tests)

text \<open>
  C5 as stated fails: \<open>7c1e\<close> is the identifier of a stored record, and resolving
  \<open>7c1e\<close> is \<open>ambiguous\<close>, because the name of another record starts with it. And
  \<open>3b9d77e1\<close> is the identifier of a stored record that no other name starts with, and
  resolving it throws where the active conversation cannot be archived.
\<close>

theorem full_identifier_counterexample:
  "''7c1e'' \<in> set (stored_identifiers nested_store)
   \<and> restoreHistory ''2025-03-01T10:00:00.000Z'' ''7c1e'' nested_store
       = Returns (Ambiguous [''7c1e'', ''7c1e02aa'']) nested_store
   \<and> ''3b9d77e1'' \<in> set (stored_identifiers unarchivable_store)
   \<and> filter (\<lambda>f. endsWith f ''.json'' \<and> startsWith f ''3b9d77e1'')
        (map fst (history unarchivable_store)) = [''3b9d77e1.json'']
   \<and> restoreHistory ''2025-03-01T10:00:00.000Z'' ''3b9d77e1'' unarchivable_store
       = Throws ENOENT unarchivable_store"
  by (simp add: restoreHistory_ambiguous_example restoreHistory_unarchivable_full_example
        history_examples string_tests stored_identifiers_def)

subsection \<open>Writing and reading records\<close>

text \<open>
  C2, as the code has it. Each write of a persisted record is one \<open>writeFileSync\<close>
  straight to the target path, after the \<open>mkdirSync\<close> calls of \<open>ensureDirectories\<close>
  if any: \<open>saveActiveMessage\<close> writes the active conversation file, \<open>archiveToHistory\<close>
  writes the history entry. No temporary path is written and nothing is renamed.
\<close>

theorem persisted_writes_are_direct:
  "(\<exists>ks h' d'. only_mkdir ks
       \<and> saveActiveMessage now h d = Returns h' d'
       \<and> calls d'
           = calls d @ ks
               @ [WriteFileSync ACTIVE_MESSAGE_PATH (JSON_stringify (h\<lparr>hist_updated := now\<rparr>))])
   \<and> (single_component (hist_id h @ ''.json'') \<longrightarrow>
        (\<exists>ks d'. only_mkdir ks \<and> archiveToHistory h d = Returns () d'
           \<and> calls d' = calls d @ ks
               @ [WriteFileSync (HistoryEntry (hist_id h @ ''.json'')) (JSON_stringify h)]))"
proof -
  obtain ks where ks: "calls (ensureDirectories d) = calls d @ ks" "only_mkdir ks"
    using calls_ensureDirectories [of d] by blast
  have a: "\<exists>ks h' d'. only_mkdir ks
       \<and> saveActiveMessage now h d = Returns h' d'
       \<and> calls d'
           = calls d @ ks
               @ [WriteFileSync ACTIVE_MESSAGE_PATH (JSON_stringify (h\<lparr>hist_updated := now\<rparr>))]"
    using ks by (simp add: saveActiveMessage_eq JSON_stringify_eq)
  have b: "\<exists>ks d'. only_mkdir ks \<and> archiveToHistory h d = Returns () d'
           \<and> calls d' = calls d @ ks
               @ [WriteFileSync (HistoryEntry (hist_id h @ ''.json'')) (JSON_stringify h)]"
    if "single_component (hist_id h @ ''.json'')"
    using ks that by (simp add: archiveToHistory_entry JSON_stringify_eq)
  from a b show ?thesis by blast
qed

theorem persisted_writes_are_direct_witness:
  "single_component (hist_id active_conversation @ ''.json'')
   \<and> calls (disk_of (saveActiveMessage ''2025-03-01T10:00:00.000Z'' active_conversation example_disk))
     = [WriteFileSync ACTIVE_MESSAGE_PATH
          (JSON_stringify (active_conversation\<lparr>hist_updated := ''2025-03-01T10:00:00.000Z''\<rparr>))]
   \<and> calls (disk_of (archiveToHistory active_conversation example_disk))
     = [WriteFileSync (HistoryEntry ''5d0f3a6c.json'') (JSON_stringify active_conversation)]"
  using persisted_writes_are_direct
          [of "''2025-03-01T10:00:00.000Z''" active_conversation example_disk]
  by (simp add: saveActiveMessage_example archiveToHistory_example JSON_stringify_eq
        single_component_def hist_id_examples calls_examples)

text \<open>
  C2 as stated fails: the calls \<open>saveActiveMessage\<close> and \<open>archiveToHistory\<close> make on a
  disk whose directories exist are a single direct write of the target each, which is
  not a write to a temporary path followed by a rename.
\<close>

theorem atomic_replace_counterexample:
  "\<not> atomic_replace ACTIVE_MESSAGE_PATH
       (calls (disk_of (saveActiveMessage ''2025-03-01T10:00:00.000Z'' active_conversation
                          example_disk)))
   \<and> writes_directly ACTIVE_MESSAGE_PATH
       (calls (disk_of (saveActiveMessage ''2025-03-01T10:00:00.000Z'' active_conversation
                          example_disk)))
   \<and> \<not> atomic_replace (HistoryEntry ''5d0f3a6c.json'')
         (calls (disk_of (archiveToHistory active_conversation example_disk)))
   \<and> writes_directly (HistoryEntry ''5d0f3a6c.json'')
         (calls (disk_of (archiveToHistory active_conversation example_disk)))"
  by (simp add: saveActiveMessage_example archiveToHistory_example atomic_replace_def
        writes_directly_def)

text \<open>
  C3. A record that fails to parse is treated as absent. \<open>loadActiveMessage\<close> returns
  \<open>null\<close> when the active conversation file is missing and when its text does not
  parse; its result has no exception case. \<open>listHistory\<close> returns exactly one record
  for each \<open>.json\<close> file of the history directory that parses, whatever the other files
  hold: the files that do not parse are skipped.
\<close>

theorem unparsable_records_skipped:
  "(active_message d = None \<longrightarrow> fst (loadActiveMessage d) = None)
   \<and> (\<forall>s. active_message d = Some (Malformed s) \<longrightarrow> fst (loadActiveMessage d) = None)
   \<and> mset (fst (listHistory getTime d))
       = mset (map toRecord (parsed (filter (\<lambda>(f, text). endsWith f ''.json'') (history d))))
   \<and> (\<forall>f h. (f, Serialised h) \<in> set (history d) \<and> endsWith f ''.json''
         \<longrightarrow> toRecord h \<in> set (fst (listHistory getTime d)))"
proof -
  have "\<forall>f h. (f, Serialised h) \<in> set (history d) \<and> endsWith f ''.json''
         \<longrightarrow> toRecord h \<in> set (fst (listHistory getTime d))"
  proof (intro allI impI)
    fix f h assume a: "(f, Serialised h) \<in> set (history d) \<and> endsWith f ''.json''"
    then have "(f, Serialised h) \<in> set (filter (\<lambda>(f, text). endsWith f ''.json'') (history d))"
      by simp
    then have "h \<in> set (parsed (filter (\<lambda>(f, text). endsWith f ''.json'') (history d)))"
      by (rule parsed_member)
    then show "toRecord h \<in> set (fst (listHistory getTime d))"
      by (simp add: listHistory_eq set_array_sort)
  qed
  then show ?thesis
    by (simp add: loadActiveMessage_eq listHistory_eq mset_array_sort)
qed

theorem unparsable_records_skipped_witness:
  "active_message example_disk = None \<and> fst (loadActiveMessage example_disk) = None
   \<and> fst (loadActiveMessage (example_disk\<lparr>active_message := Some (Malformed ''{ id: '')\<rparr>)) = None
   \<and> (''broken.json'', Malformed ''{ id: '') \<in> set (history example_store)
   \<and> (''3b9d77e1.json'', Serialised second_conversation) \<in> set (history example_store)
   \<and> endsWith ''3b9d77e1.json'' ''.json''
   \<and> toRecord second_conversation \<in> set (fst (listHistory example_getTime example_store))
   \<and> map rec_id (fst (listHistory example_getTime example_store)) = [''3b9d77e1'', ''7c1e02aa'']"
  using unparsable_records_skipped [of example_disk example_getTime]
        unparsable_records_skipped
          [of "example_disk\<lparr>active_message := Some (Malformed ''{ id: '')\<rparr>" example_getTime]
        unparsable_records_skipped [of example_store example_getTime]
  by (simp add: listHistory_def loadActiveMessage_eq ensureDirectories_def toRecord_def
        byUpdated_def example_getTime_def Let_def example_defs string_tests)

text \<open>
  C6. \<open>saveActiveMessage\<close> returns, and reading back what it wrote gives a value equal
  in every field to the written record, which is the caller's record as the call leaves
  it: identifier, creation time and message list (an empty one too) as they were passed
  in, and \<open>updated\<close> set by the call to the time of the write. The equality is that of
  the text on the disk: \<open>JSON.parse\<close> of the text \<open>JSON.stringify\<close> wrote for the
  record is the value of the record.
\<close>

theorem save_then_load:
  "\<exists>h' d'. saveActiveMessage now h d = Returns h' d'
       \<and> fst (loadActiveMessage d') = Some h'
       \<and> h' = h\<lparr>hist_updated := now\<rparr>
       \<and> hist_id h' = hist_id h \<and> hist_created h' = hist_created h
       \<and> messages h' = messages h \<and> hist_updated h' = now
       \<and> active_message d' = Some (read_text (JSON_text h'))
       \<and> JSON_parse_text (JSON_text h') = Some (history_json h')
       \<and> as_MessageHistory (history_json h') = Some h'"
  by (simp add: saveActiveMessage_def Let_def writeFileSync_def JSON_stringify_def
        loadActiveMessage_eq read_text_JSON_text JSON_parse_text_JSON_text
        as_MessageHistory_history_json)

subsection \<open>Archiving and listing\<close>

text \<open>
  A non-empty active conversation \<open>c\<close> whose file name \<open>id.json\<close> is a single path
  component is archived first: \<open>clearActiveMessage\<close> writes \<open>c\<close> to the history
  directory and only then unlinks the active file; \<open>restoreHistory\<close>, when it succeeds,
  writes \<open>c\<close> to the history directory and only then overwrites the active file, and
  otherwise leaves the active file and the history as they were.
\<close>

lemma archived_first_in_history_directory:
  assumes "active_message d = Some (Serialised c)"
    and "messages c \<noteq> []"
    and "single_component (hist_id c @ ''.json'')"
  shows "(\<exists>d'. clearActiveMessage d = Returns True d'
            \<and> active_message d' = None
            \<and> map_of (history d') (hist_id c @ ''.json'') = Some (Serialised c)
            \<and> calls d' = calls (ensureDirectories d)
                 @ [WriteFileSync (HistoryEntry (hist_id c @ ''.json'')) (Serialised c),
                    UnlinkSync ACTIVE_MESSAGE_PATH])
       \<and> (case restoreHistory now guid d of
            Returns Success d' \<Rightarrow>
              map_of (history d') (hist_id c @ ''.json'') = Some (Serialised c)
              \<and> (\<exists>h. active_message d' = Some (Serialised h)
                    \<and> calls d' = calls (ensureDirectories d)
                         @ [WriteFileSync (HistoryEntry (hist_id c @ ''.json'')) (Serialised c),
                            WriteFileSync ACTIVE_MESSAGE_PATH (Serialised h)])
          | Returns r d' \<Rightarrow> active_message d' = active_message d \<and> history d' = history d
          | Throws e d' \<Rightarrow> active_message d' = active_message d \<and> history d' = history d)"
proof -
  have clear: "\<exists>d'. clearActiveMessage d = Returns True d'
            \<and> active_message d' = None
            \<and> map_of (history d') (hist_id c @ ''.json'') = Some (Serialised c)
            \<and> calls d' = calls (ensureDirectories d)
                 @ [WriteFileSync (HistoryEntry (hist_id c @ ''.json'')) (Serialised c),
                    UnlinkSync ACTIVE_MESSAGE_PATH]"
    using assms
    by (simp add: clearActiveMessage_def loadActiveMessage_eq archiveToHistory_entry Let_def
          update_conv')
  have restore: "(case restoreHistory now guid d of
            Returns Success d' \<Rightarrow>
              map_of (history d') (hist_id c @ ''.json'') = Some (Serialised c)
              \<and> (\<exists>h. active_message d' = Some (Serialised h)
                    \<and> calls d' = calls (ensureDirectories d)
                         @ [WriteFileSync (HistoryEntry (hist_id c @ ''.json'')) (Serialised c),
                            WriteFileSync ACTIVE_MESSAGE_PATH (Serialised h)])
          | Returns r d' \<Rightarrow> active_message d' = active_message d \<and> history d' = history d
          | Throws e d' \<Rightarrow> active_message d' = active_message d \<and> history d' = history d)"
    using assms
    by (simp add: restoreHistory_def loadActiveMessage_eq archiveToHistory_entry Let_def
          update_conv' saveActiveMessage_eq ensureDirectories_present split: sum.splits)
  from clear restore show ?thesis by simp
qed

text \<open>
  C9. The active conversation file holds a conversation with three messages whose \<open>id\<close>
  is \<open>../active_message\<close>. \<open>join(HISTORY_DIR, "../active_message.json")\<close> is the
  active conversation file itself, so \<open>archiveToHistory\<close> writes the conversation onto
  the file it was read from and nothing into the history directory.
  \<open>clearActiveMessage\<close> then unlinks that file and returns \<open>true\<close>;
  \<open>restoreHistory\<close> then overwrites it with the restored conversation and returns
  \<open>success\<close>. Either way the conversation is in no file afterwards.
\<close>

theorem traversal_identifier_discards_conversation:
  "active_message traversal_store
     = Some (Serialised (active_conversation\<lparr>hist_id := ''../active_message''\<rparr>))
   \<and> length (messages (active_conversation\<lparr>hist_id := ''../active_message''\<rparr>)) = 3
   \<and> join_HISTORY_DIR traversal_store (''../active_message'' @ ''.json'') = ACTIVE_MESSAGE_PATH
   \<and> clearActiveMessage traversal_store
       = Returns True
           (traversal_store
              \<lparr>active_message := None,
               calls := [WriteFileSync ACTIVE_MESSAGE_PATH
                           (Serialised (active_conversation\<lparr>hist_id := ''../active_message''\<rparr>)),
                         UnlinkSync ACTIVE_MESSAGE_PATH]\<rparr>)
   \<and> history (disk_of (clearActiveMessage traversal_store)) = history traversal_store
   \<and> other_files (disk_of (clearActiveMessage traversal_store)) = []
   \<and> restoreHistory ''2025-03-01T10:00:00.000Z'' ''3b'' traversal_store
       = Returns Success
           (traversal_store
              \<lparr>active_message :=
                 Some (Serialised (second_conversation\<lparr>hist_updated := ''2025-03-01T10:00:00.000Z''\<rparr>)),
               calls := [WriteFileSync ACTIVE_MESSAGE_PATH
                           (Serialised (active_conversation\<lparr>hist_id := ''../active_message''\<rparr>)),
                         WriteFileSync ACTIVE_MESSAGE_PATH
                           (Serialised (second_conversation
                                          \<lparr>hist_updated := ''2025-03-01T10:00:00.000Z''\<rparr>))]\<rparr>)
   \<and> history (disk_of (restoreHistory ''2025-03-01T10:00:00.000Z'' ''3b'' traversal_store))
       = history traversal_store
   \<and> other_files (disk_of (restoreHistory ''2025-03-01T10:00:00.000Z'' ''3b'' traversal_store)) = []"
  by (simp add: example_runs)

text \<open>
  C10. When the \<open>updated\<close> stamps of the listed conversations are dates,
  \<open>listHistory\<close> returns its records ordered by \<open>updated\<close>, newest first. Every record
  it returns is made from a \<open>.json\<close> file of the history directory that parses, and
  its preview is \<open>(empty conversation)\<close> when the conversation has no human message;
  otherwise it is made from the content of the first human message: the content itself
  when that is at most 60 characters long, and its first 60 characters followed by
  \<open>...\<close> when it is longer.
\<close>

theorem listHistory_sorted_with_preview:
  "((\<forall>f h. (f, Serialised h) \<in> set (history d) \<and> endsWith f ''.json''
         \<longrightarrow> getTime (hist_updated h) \<noteq> None)
      \<longrightarrow> sorted_wrt (newer_first getTime) (fst (listHistory getTime d)))
   \<and> (\<forall>r \<in> set (fst (listHistory getTime d)).
         \<exists>f h. (f, Serialised h) \<in> set (history d) \<and> endsWith f ''.json'' \<and> r = toRecord h)
   \<and> ((\<forall>x \<in> set (messages h). role x \<noteq> Human)
         \<longrightarrow> preview (toRecord h) = ''(empty conversation)'')
   \<and> (messages h = pre @ m # post \<and> (\<forall>x \<in> set pre. role x \<noteq> Human) \<and> role m = Human
         \<longrightarrow> preview (toRecord h)
               = (if length (content m) \<le> 60 then content m else take 60 (content m) @ ''...'')
             \<and> length (take 60 (content m)) \<le> 60)"
proof -
  let ?files = "filter (\<lambda>(f, text). endsWith f ''.json'') (history d)"
  have origin: "\<forall>r \<in> set (fst (listHistory getTime d)).
         \<exists>f h. (f, Serialised h) \<in> set (history d) \<and> endsWith f ''.json'' \<and> r = toRecord h"
  proof
    fix r assume "r \<in> set (fst (listHistory getTime d))"
    then obtain h where h: "h \<in> set (parsed ?files)" and r: "r = toRecord h"
      by (auto simp: listHistory_eq set_array_sort)
    from parsed_origin [OF h] obtain f where "(f, Serialised h) \<in> set ?files" ..
    with r show "\<exists>f h. (f, Serialised h) \<in> set (history d) \<and> endsWith f ''.json'' \<and> r = toRecord h"
      by auto
  qed
  have sorted: "sorted_wrt (newer_first getTime) (fst (listHistory getTime d))"
    if valid: "\<forall>f h. (f, Serialised h) \<in> set (history d) \<and> endsWith f ''.json''
         \<longrightarrow> getTime (hist_updated h) \<noteq> None"
  proof -
    have "\<forall>r \<in> set (map toRecord (parsed ?files)). getTime (rec_updated r) \<noteq> None"
    proof
      fix r assume "r \<in> set (map toRecord (parsed ?files))"
      then obtain h where h: "h \<in> set (parsed ?files)" and r: "r = toRecord h" by auto
      from parsed_origin [OF h] obtain f where "(f, Serialised h) \<in> set ?files" ..
      with valid have "getTime (hist_updated h) \<noteq> None" by auto
      with r show "getTime (rec_updated r) \<noteq> None" by (simp add: toRecord_def Let_def)
    qed
    then show ?thesis unfolding listHistory_eq by (rule sorted_array_sort)
  qed
  have none: "preview (toRecord h) = ''(empty conversation)''"
    if "\<forall>x \<in> set (messages h). role x \<noteq> Human"
    using find_none [of "messages h" "\<lambda>m. role m = Human"] that
    by (simp add: toRecord_def Let_def)
  have some: "preview (toRecord h)
               = (if length (content m) \<le> 60 then content m else take 60 (content m) @ ''...'')"
    if "messages h = pre @ m # post \<and> (\<forall>x \<in> set pre. role x \<noteq> Human) \<and> role m = Human"
    using find_first [of "messages h" pre m post "\<lambda>m. role m = Human"] that
    by (simp add: toRecord_def Let_def)
  from origin sorted none some show ?thesis by simp
qed

theorem listHistory_sorted_with_preview_witness:
  "map rec_id (fst (listHistory example_getTime example_store)) = [''3b9d77e1'', ''7c1e02aa'']
   \<and> map (example_getTime \<circ> rec_updated) (fst (listHistory example_getTime example_store))
       = [Some 1740504600000, Some 1740038700000]
   \<and> sorted_wrt (newer_first example_getTime) (fst (listHistory example_getTime example_store))
   \<and> map preview (fst (listHistory example_getTime example_store))
       = [''(empty conversation)'',
          ''how do I find every typescript file that imports express in ...'']"
  using listHistory_sorted_with_preview [of example_store example_getTime first_conversation
          "[hd (messages first_conversation)]" "messages first_conversation ! 1"
          "[messages first_conversation ! 2]"]
  by (simp add: listHistory_def ensureDirectories_def toRecord_def byUpdated_def newer_first_def
        example_getTime_def Let_def example_defs string_tests)

section \<open>Properties of the task engine as the specification describes it\<close>

subsection \<open>Scores and ranking\<close>

lemma sum_list_forty: "sum_list (map (\<lambda>u. 40) xs) = 40 * int (length xs)"
  by (induction xs) auto

lemma focusScore_eq:
  "focusScore today tasks t
     = (if overdue today t then 200 else 0)
       + (if due_today today t then 100 else 0)
       + (if priority_is t ''urgent'' then 100 else 0)
       + (if priority_is t ''high'' then 50 else 0)
       + 40 * int (length (openBlockedBy tasks t))
       - (if isBlocked tasks (tid t) then 50 else 0)"
  by (simp add: focusScore_def contributions_def sum_list_forty)

lemma date_before_irrefl: "\<not> date_before d d"
  by (simp add: date_before_def)

lemma overdue_not_due_today: "overdue today t \<Longrightarrow> \<not> due_today today t"
  by (auto simp: overdue_def due_today_def date_before_irrefl)

lemma priority_is_unique: "priority_is t a \<Longrightarrow> priority_is t b \<Longrightarrow> a = b"
  by (auto simp: priority_is_def split: option.splits field_value.splits)

lemma mset_focusRank:
  "mset (focusRank today tasks) = mset (filter (\<lambda>t. status t = Open) tasks)"
  by (simp add: focusRank_def)

lemma set_focusRank:
  "set (focusRank today tasks) = {t \<in> set tasks. status t = Open}"
  by (auto simp: focusRank_def)

lemma filter_open_focusRank:
  "filter (\<lambda>t. status t = Open) (focusRank today tasks) = focusRank today tasks"
  by (rule filter_True) (simp add: set_focusRank)

lemma length_filter_mset: "length (filter P xs) = size (filter_mset P (mset xs))"
  by (simp flip: mset_filter)

lemma openBlockedBy_focusRank:
  "length (openBlockedBy (focusRank today tasks) t) = length (openBlockedBy tasks t)"
proof -
  let ?P = "\<lambda>u. status u = Open \<and> tid u \<in> set (blocks t)"
  have "length (filter ?P (focusRank today tasks))
          = size (filter_mset ?P (mset (filter (\<lambda>t. status t = Open) tasks)))"
    by (simp add: length_filter_mset mset_focusRank)
  also have "filter_mset ?P (mset (filter (\<lambda>t. status t = Open) tasks)) = filter_mset ?P (mset tasks)"
    by (auto simp: filter_filter_mset intro: filter_mset_cong)
  also have "size (filter_mset ?P (mset tasks)) = length (filter ?P tasks)"
    by (simp add: length_filter_mset)
  finally show ?thesis by (simp add: openBlockedBy_def)
qed

lemma isBlocked_focusRank:
  "isBlocked (focusRank today tasks) i = isBlocked tasks i"
  by (auto simp: isBlocked_def list_ex_iff set_focusRank)

lemma focusScore_focusRank:
  "focusScore today (focusRank today tasks) t = focusScore today tasks t"
  by (simp add: focusScore_eq openBlockedBy_focusRank isBlocked_focusRank)

lemma rank_key_focusRank:
  "rank_key today (focusRank today tasks) = rank_key today tasks"
  by (rule ext) (simp add: rank_key_def focusScore_focusRank)

lemma focusRank_idem:
  "focusRank today (focusRank today tasks) = focusRank today tasks"
proof -
  have "focusRank today (focusRank today tasks)
          = sort_key (rank_key today tasks) (focusRank today tasks)"
    by (simp add: focusRank_def [of today "focusRank today tasks"] filter_open_focusRank
          rank_key_focusRank)
  also have "\<dots> = focusRank today tasks"
    by (rule sort_key_id_if_sorted) (simp add: focusRank_def)
  finally show ?thesis .
qed

lemma date_eq_iff:
  "(a :: date) = b \<longleftrightarrow> year a = year b \<and> month a = month b \<and> day a = day b"
  by (cases a, cases b) auto

lemma rank_key_le:
  "rank_key today tasks a \<le> rank_key today tasks b \<longleftrightarrow>
     focusScore today tasks b < focusScore today tasks a
     \<or> (focusScore today tasks a = focusScore today tasks b
         \<and> (case (deadline a, deadline b) of
               (Some da, Some db) \<Rightarrow> date_before da db \<or> (da = db \<and> created a \<le> created b)
             | (Some da, None) \<Rightarrow> True
             | (None, Some db) \<Rightarrow> False
             | (None, None) \<Rightarrow> created a \<le> created b))"
  by (auto simp: rank_key_def date_key_def date_before_def less_eq_prod_def less_prod_def
        date_eq_iff split: option.splits)

subsection \<open>Evaluating the example tasks\<close>

lemmas task_defs = example_today_def example_tasks_def plain_task_def login_bug_def
  prepare_slides_def review_pr_def send_report_def old_chore_def
  check_email_def pay_rent_def pay_rent_november_def pay_rent_undated_def badly_anchored_def

lemmas score_defs = focusScore_eq overdue_def due_today_def priority_is_def openBlockedBy_def
  isBlocked_def date_before_def

section \<open>The claims about the task engine\<close>

text \<open>
  C7, against the scorer as the specification describes it. The focus score of a task is
  the sum of these contributions and no other: +200 if its deadline is strictly before
  the current date, +100 if it is due today, +100 if its priority field equals "urgent",
  +50 if it equals "high", +40 for each open task it blocks, -50 if it is itself
  blocked. An overdue urgent task scores 300 before the blocking and blocked
  adjustments. A task that is not overdue, not urgent and blocks two open tasks scores
  80 before the adjustments the example does not name (due today, priority "high",
  blocked). The ranking is fixed by the date and the task list: it holds the open
  tasks, in ascending order of the ranking key, tasks with equal keys in the order of
  the list; ranking the ranked tasks again gives the same order.
\<close>

theorem focus_score_contributions:
  "focusScore today tasks t
     = (if overdue today t then 200 else 0)
       + (if due_today today t then 100 else 0)
       + (if priority_is t ''urgent'' then 100 else 0)
       + (if priority_is t ''high'' then 50 else 0)
       + 40 * int (length (openBlockedBy tasks t))
       - (if isBlocked tasks (tid t) then 50 else 0)
   \<and> (overdue today t \<and> priority_is t ''urgent'' \<longrightarrow>
        focusScore today tasks t
          = 300 + 40 * int (length (openBlockedBy tasks t))
              - (if isBlocked tasks (tid t) then 50 else 0))
   \<and> (\<not> overdue today t \<and> \<not> priority_is t ''urgent''
        \<and> length (openBlockedBy tasks t) = 2 \<longrightarrow>
        focusScore today tasks t
          = 80 + (if due_today today t then 100 else 0)
              + (if priority_is t ''high'' then 50 else 0)
              - (if isBlocked tasks (tid t) then 50 else 0))
   \<and> mset (focusRank today tasks) = mset (filter (\<lambda>t. status t = Open) tasks)
   \<and> sorted (map (rank_key today tasks) (focusRank today tasks))
   \<and> (\<forall>k. filter (\<lambda>t. rank_key today tasks t = k) (focusRank today tasks)
            = filter (\<lambda>t. rank_key today tasks t = k) (filter (\<lambda>t. status t = Open) tasks))
   \<and> focusRank today (focusRank today tasks) = focusRank today tasks"
proof -
  have a: "focusScore today tasks t
          = 300 + 40 * int (length (openBlockedBy tasks t))
              - (if isBlocked tasks (tid t) then 50 else 0)"
    if "overdue today t \<and> priority_is t ''urgent''"
  proof -
    from that have "\<not> due_today today t" by (simp add: overdue_not_due_today)
    moreover from that have "\<not> priority_is t ''high''"
      using priority_is_unique [of t "''urgent''" "''high''"] by auto
    ultimately show ?thesis using that by (simp add: focusScore_eq)
  qed
  have b: "\<forall>k. filter (\<lambda>t. rank_key today tasks t = k) (focusRank today tasks)
            = filter (\<lambda>t. rank_key today tasks t = k) (filter (\<lambda>t. status t = Open) tasks)"
    by (simp add: focusRank_def sort_key_stable)
  have c: "sorted (map (rank_key today tasks) (focusRank today tasks))"
    by (simp add: focusRank_def)
  from a b c show ?thesis
    by (simp add: focusScore_eq focusRank_idem mset_focusRank)
qed

theorem focus_score_contributions_witness:
  "overdue example_today login_bug \<and> priority_is login_bug ''urgent''
   \<and> focusScore example_today example_tasks login_bug = 300
   \<and> \<not> overdue example_today prepare_slides \<and> \<not> priority_is prepare_slides ''urgent''
   \<and> length (openBlockedBy example_tasks prepare_slides) = 2
   \<and> focusScore example_today example_tasks prepare_slides = 80
   \<and> map tid (focusRank example_today example_tasks)
       = [''a81f3c02'', ''b2047d9e'', ''d4b60f71'', ''c39a1e55'']"
  using focus_score_contributions [of example_today example_tasks login_bug]
        focus_score_contributions [of example_today example_tasks prepare_slides]
  by (simp add: task_defs score_defs focusRank_def rank_key_def date_key_def
        less_eq_prod_def less_prod_def)




end
